theory Spec2Isabelle
  imports Main "HOL-Library.Sublist"
begin

section \<open>Paths, errors and the shared data model\<close>

text \<open>
  Paths are the strings the TypeScript source passes around. The functions of Deno's
  \<^verbatim>\<open>path/mod.ts\<close> (\<^verbatim>\<open>join\<close>, \<^verbatim>\<open>dirname\<close>, \<^verbatim>\<open>relative\<close>, \<^verbatim>\<open>isAbsolute\<close>) belong to the standard
  library and not to the repository, so every definition below takes them as a
  parameter: a record of the four functions. Nothing proved below depends on what they
  compute.
\<close>

type_synonym path = string

record pathlib =
  join :: "path \<Rightarrow> path \<Rightarrow> path"
  dirname :: "path \<Rightarrow> path"
  relative :: "path \<Rightarrow> path \<Rightarrow> path"
  isAbsolute :: "path \<Rightarrow> bool"

text \<open>Everything the modelled code can throw. \<open>Failure\<close> carries the message of a
  JavaScript \<^verbatim>\<open>Error\<close>; the others are the file-system errors of the Deno runtime.\<close>

datatype error =
    Failure string
  | NotFound path
  | AlreadyExists path
  | IsADirectory path
  | NotADirectory path
  | DirectoryNotEmpty path
  | InvalidArgument path

text \<open>The part of a resolved format the two modelled modules read:
  \<^verbatim>\<open>format.metadata[kTitle]\<close> and \<^verbatim>\<open>format.execute[kKeepMd]\<close>.\<close>

record Format =
  metadata_title :: "string option"
  execute_keep_md :: bool

record ProjectConfig =
  project_type :: "string option"
  project_output_dir :: "string option"
  project_lib_dir :: "string option"
  project_execute_dir :: "string option"

record ProjectContext =
  dir :: path
  config :: "ProjectConfig option"
  files_input :: "path list"
  files_resources :: "path list option"

text \<open>JavaScript truthiness of an optional string: \<^verbatim>\<open>undefined\<close> and the empty string
  are falsy.\<close>

definition truthyStr :: "string option \<Rightarrow> bool" where
  "truthyStr s = (case s of None \<Rightarrow> False | Some t \<Rightarrow> t \<noteq> [])"

section \<open>The input target index (project-index.ts)\<close>

subsection \<open>The file system as the index code observes it\<close>

text \<open>
  \<^verbatim>\<open>readInputTargetIndex\<close> and \<^verbatim>\<open>inputTargetIndex\<close> look at three things of a path: whether
  it exists (\<^verbatim>\<open>existsSync\<close>), what \<^verbatim>\<open>Deno.statSync\<close> reports (\<^verbatim>\<open>isDirectory\<close>, and \<^verbatim>\<open>mtime\<close>,
  which is a \<^verbatim>\<open>Date\<close> or \<^verbatim>\<open>null\<close>), and the text of a file. A modification time is the
  number of milliseconds of the \<^verbatim>\<open>Date\<close>; \<open>None\<close> is \<^verbatim>\<open>null\<close>. \<open>stamp\<close> is the modification
  time the platform gives a file written now.
\<close>

record fileInfo =
  isDirectory :: bool
  mtime :: "int option"
  contents :: string

record iworld =
  entries :: "path \<Rightarrow> fileInfo option"
  stamp :: "int option"

type_synonym 'a iresult = "(error + 'a) \<times> iworld"

definition iexists :: "iworld \<Rightarrow> path \<Rightarrow> bool" where
  "iexists w p = (entries w p \<noteq> None)"

definition statSync :: "iworld \<Rightarrow> path \<Rightarrow> error + fileInfo" where
  "statSync w p = (case entries w p of None \<Rightarrow> Inl (NotFound p) | Some i \<Rightarrow> Inr i)"

definition readTextFileSync :: "iworld \<Rightarrow> path \<Rightarrow> error + string" where
  "readTextFileSync w p =
     (case entries w p of
        None \<Rightarrow> Inl (NotFound p)
      | Some i \<Rightarrow> if isDirectory i then Inl (IsADirectory p) else Inr (contents i))"

definition writeTextFileSync :: "path \<Rightarrow> string \<Rightarrow> iworld \<Rightarrow> unit iresult" where
  "writeTextFileSync p s w =
     (case entries w p of
        Some i \<Rightarrow>
          if isDirectory i then (Inl (IsADirectory p), w)
          else (Inr (), w\<lparr>entries := (entries w)(p \<mapsto>
                  \<lparr>isDirectory = False, mtime = stamp w, contents = s\<rparr>)\<rparr>)
      | None \<Rightarrow>
          (Inr (), w\<lparr>entries := (entries w)(p \<mapsto>
                  \<lparr>isDirectory = False, mtime = stamp w, contents = s\<rparr>)\<rparr>))"

subsection \<open>The JavaScript values of the freshness test\<close>

text \<open>
  In \<^verbatim>\<open>readInputTargetIndex\<close> the three modification times are a \<^verbatim>\<open>Date\<close>, \<^verbatim>\<open>null\<close>, or (for
  \<^verbatim>\<open>projMod\<close> when there is no configuration file) the number \<^verbatim>\<open>0\<close>. A \<^verbatim>\<open>Date\<close> object is
  truthy whatever its time; \<^verbatim>\<open>null\<close> and \<^verbatim>\<open>0\<close> are falsy. \<^verbatim>\<open>>=\<close> compares the numeric values.
\<close>

datatype jsval = JDate int | JNull | JNumber int

fun truthy :: "jsval \<Rightarrow> bool" where
  "truthy (JDate t) = True"
| "truthy JNull = False"
| "truthy (JNumber n) = (n \<noteq> 0)"

fun toNumber :: "jsval \<Rightarrow> int" where
  "toNumber (JDate t) = t"
| "toNumber JNull = 0"
| "toNumber (JNumber n) = n"

definition js_ge :: "jsval \<Rightarrow> jsval \<Rightarrow> bool" where
  "js_ge a b = (toNumber b \<le> toNumber a)"

definition mtimeOf :: "fileInfo \<Rightarrow> jsval" where
  "mtimeOf i = (case mtime i of None \<Rightarrow> JNull | Some t \<Rightarrow> JDate t)"

subsection \<open>Index entries and the collaborators\<close>

record PartitionedMarkdown =
  headingText :: "string option"
  markdown_body :: string

record InputTargetIndex =
  title :: "string option"
  markdown :: PartitionedMarkdown
  formats :: "(string \<times> Format) list"

text \<open>
  \<^verbatim>\<open>JSON.parse\<close> either throws (\<open>None\<close>) or returns a value, which the source types as an
  \<^verbatim>\<open>InputTargetIndex\<close> without checking it. \<^verbatim>\<open>inputTargetIndex\<close> tests that value for
  truthiness, so the model keeps the falsy JSON values (\<^verbatim>\<open>null\<close>, \<^verbatim>\<open>false\<close>, \<^verbatim>\<open>0\<close>, the empty
  string) apart from the truthy ones, which it reads as index entries.
\<close>

datatype parsed = Falsy | Truthy InputTargetIndex

record ExecutionEngine =
  partitionedMarkdown :: "path \<Rightarrow> iworld \<Rightarrow> PartitionedMarkdown iresult"

text \<open>
  The code outside project-index.ts: the engine registry, format resolution, JSON, and
  \<^verbatim>\<open>projectScratchPath\<close> of project-scratch.ts, which maps a project directory and a
  relative path to a path under the project's scratch directory.
\<close>

record index_collab =
  fileExecutionEngine :: "path \<Rightarrow> ExecutionEngine option"
  renderFormats :: "path \<Rightarrow> string \<Rightarrow> ProjectContext \<Rightarrow> iworld \<Rightarrow> (string \<times> Format) list iresult"
  JSON_parse :: "string \<Rightarrow> parsed option"
  JSON_stringify :: "InputTargetIndex \<Rightarrow> string"
  projectScratchPath :: "path \<Rightarrow> path \<Rightarrow> path"

subsection \<open>projectConfigFile, inputTargetIndexFile\<close>

definition projectConfigFile :: "pathlib \<Rightarrow> iworld \<Rightarrow> path \<Rightarrow> path option" where
  "projectConfigFile P w d =
     List.find (iexists w) (map (\<lambda>f. join P d f) [''_quarto.yml'', ''_quarto.yaml''])"

definition indexPath :: "pathlib \<Rightarrow> index_collab \<Rightarrow> path \<Rightarrow> path \<Rightarrow> path" where
  "indexPath P c projectDir p = projectScratchPath c projectDir (join P ''index'' p)"

definition inputTargetIndexFile :: "pathlib \<Rightarrow> index_collab \<Rightarrow> path \<Rightarrow> path \<Rightarrow> path" where
  "inputTargetIndexFile P c projectDir inp = indexPath P c projectDir (inp @ ''.json'')"

subsection \<open>readInputTargetIndex\<close>

text \<open>The \<^verbatim>\<open>try { return JSON.parse(Deno.readTextFileSync(indexFile)); } catch { return
  undefined; }\<close> of the source: a read error and a parse error both give \<^verbatim>\<open>undefined\<close>.\<close>

definition parseIndexFile :: "index_collab \<Rightarrow> iworld \<Rightarrow> path \<Rightarrow> parsed option" where
  "parseIndexFile c w indexFile =
     (case readTextFileSync w indexFile of
        Inl e \<Rightarrow> None
      | Inr s \<Rightarrow> JSON_parse c s)"

text \<open>The result is \<open>Inl\<close> when a \<^verbatim>\<open>Deno.statSync\<close> throws, \<open>Inr None\<close> for \<^verbatim>\<open>undefined\<close>, and
  \<open>Inr (Some v)\<close> for a parsed value.\<close>

definition readInputTargetIndex ::
  "pathlib \<Rightarrow> index_collab \<Rightarrow> iworld \<Rightarrow> path \<Rightarrow> path \<Rightarrow> error + parsed option" where
  "readInputTargetIndex P c w projectDir inp =
     (let inputFile = join P projectDir inp;
          indexFile = inputTargetIndexFile P c projectDir inp
      in if iexists w indexFile then
           (case statSync w inputFile of
              Inl e \<Rightarrow> Inl e
            | Inr inputStat \<Rightarrow>
           (case statSync w indexFile of
              Inl e \<Rightarrow> Inl e
            | Inr indexStat \<Rightarrow>
           (let inputMod = mtimeOf inputStat;
                indexMod = mtimeOf indexStat;
                projConfigFile = projectConfigFile P w projectDir
            in case (case projConfigFile of
                       None \<Rightarrow> Inr (JNumber 0)
                     | Some f \<Rightarrow>
                         if f \<noteq> [] then map_sum id mtimeOf (statSync w f)
                         else Inr (JNumber 0)) of
                 Inl e \<Rightarrow> Inl e
               | Inr projMod \<Rightarrow>
                   if truthy inputMod \<and> truthy indexMod \<and> js_ge indexMod inputMod \<and>
                      (\<not> truthy projMod \<or> js_ge indexMod projMod)
                   then Inr (parseIndexFile c w indexFile)
                   else Inr None)))
         else Inr None)"

subsection \<open>inputTargetIndex\<close>

text \<open>The second half of \<^verbatim>\<open>inputTargetIndex\<close> (``otherwise read the metadata and index
  it''), under a name of its own so that theorems can speak of it: resolve the formats,
  partition the markdown, fall back to the first heading for the title, write the index
  file, return the entry.\<close>

definition indexInput ::
  "pathlib \<Rightarrow> index_collab \<Rightarrow> ProjectContext \<Rightarrow> path \<Rightarrow> ExecutionEngine \<Rightarrow> iworld \<Rightarrow>
     InputTargetIndex option iresult" where
  "indexInput P c project inp engine w =
     (let inputFile = join P (dir project) inp
      in case renderFormats c inputFile ''all'' project w of
           (Inl e, w1) \<Rightarrow> (Inl e, w1)
         | (Inr fmts, w1) \<Rightarrow>
        (case partitionedMarkdown engine inputFile w1 of
           (Inl e, w2) \<Rightarrow> (Inl e, w2)
         | (Inr md, w2) \<Rightarrow>
        (let firstTitle = (case fmts of [] \<Rightarrow> None | (k, f) # rest \<Rightarrow> metadata_title f);
             index0 = \<lparr>title = firstTitle, markdown = md, formats = fmts\<rparr>;
             index = (if \<not> truthyStr (title index0)
                      then index0\<lparr>title := headingText (markdown index0)\<rparr> else index0);
             indexFile = inputTargetIndexFile P c (dir project) inp
         in case writeTextFileSync indexFile (JSON_stringify c index) w2 of
              (Inl e, w3) \<Rightarrow> (Inl e, w3)
            | (Inr u, w3) \<Rightarrow> (Inr (Some index), w3))))"

definition inputTargetIndex ::
  "pathlib \<Rightarrow> index_collab \<Rightarrow> ProjectContext \<Rightarrow> path \<Rightarrow> iworld \<Rightarrow>
     InputTargetIndex option iresult" where
  "inputTargetIndex P c project inp w =
     (let inputFile = join P (dir project) inp
      in if \<not> iexists w inputFile \<or> (case statSync w inputFile of
                                           Inl e \<Rightarrow> False | Inr i \<Rightarrow> isDirectory i)
         then (Inr None, w)
         else (case fileExecutionEngine c inputFile of
                 None \<Rightarrow> (Inr None, w)
               | Some engine \<Rightarrow>
                  (case readInputTargetIndex P c w (dir project) inp of
                     Inl e \<Rightarrow> (Inl e, w)
                   | Inr (Some (Truthy targetIndex)) \<Rightarrow> (Inr (Some targetIndex), w)
                   | Inr other \<Rightarrow> indexInput P c project inp engine w)))"

subsection \<open>Notions used in the statements\<close>

text \<open>The world \<open>w\<close> with nothing at the path \<open>p\<close>.\<close>

definition withoutFile :: "iworld \<Rightarrow> path \<Rightarrow> iworld" where
  "withoutFile w p = w\<lparr>entries := (entries w)(p := None)\<rparr>"

text \<open>The world \<open>w\<close> after \<open>s\<close> was written to the file \<open>p\<close>.\<close>

definition withFile :: "iworld \<Rightarrow> path \<Rightarrow> string \<Rightarrow> iworld" where
  "withFile w p s =
     w\<lparr>entries := (entries w)(p \<mapsto> \<lparr>isDirectory = False, mtime = stamp w, contents = s\<rparr>)\<rparr>"


section \<open>Project rendering (project.ts)\<close>

subsection \<open>The file system as renderProject changes it\<close>

text \<open>
  \<^verbatim>\<open>renderProject\<close> tests paths for existence, creates directories, removes, renames and
  copies whole trees and lists a directory. The model is a table from paths to nodes. A
  path \<open>p\<close> lies under a directory \<open>d\<close> when it is \<open>d\<close> or starts with \<open>d\<close> and a slash.
  Paths handed to the file system are taken to be in canonical form (absolute, without
  a trailing slash); there are no symbolic links, so \<^verbatim>\<open>Deno.realPathSync\<close> of an existing
  path is the path. That a parent directory exists is not checked when an entry is
  placed.
\<close>

datatype node = File string | Dir

type_synonym filesystem = "(path \<times> node) list"

record world =
  fs :: filesystem
  cwd :: path
  env_QUARTO_PROJECT_DIR :: "string option"
  warnings :: "string list"

text \<open>A computation changes the world and returns a value or throws; the world it
  leaves behind is there in both cases.\<close>

type_synonym 'a result = "(error + 'a) \<times> world"
type_synonym 'a action = "world \<Rightarrow> 'a result"

definition returnE :: "'a \<Rightarrow> 'a action" where
  "returnE x w = (Inr x, w)"

definition throwE :: "error \<Rightarrow> 'a action" where
  "throwE e w = (Inl e, w)"

definition bindE :: "'a action \<Rightarrow> ('a \<Rightarrow> 'b action) \<Rightarrow> 'b action" where
  "bindE m f w = (case m w of (Inl e, w') \<Rightarrow> (Inl e, w') | (Inr x, w') \<Rightarrow> f x w')"

text \<open>\<^verbatim>\<open>try { m } finally { cleanup }\<close>: the cleanup runs on the world \<open>m\<close> leaves, whether
  \<open>m\<close> returned or threw, and the outcome of \<open>m\<close> stands.\<close>

definition tryFinally :: "'a action \<Rightarrow> (world \<Rightarrow> world) \<Rightarrow> 'a action" where
  "tryFinally m cleanup w = (case m w of (r, w') \<Rightarrow> (r, cleanup w'))"

fun forEachE :: "('a \<Rightarrow> unit action) \<Rightarrow> 'a list \<Rightarrow> unit action" where
  "forEachE f [] = returnE ()"
| "forEachE f (x # xs) = bindE (f x) (\<lambda>u. forEachE f xs)"

fun mapE :: "('a \<Rightarrow> 'b action) \<Rightarrow> 'a list \<Rightarrow> 'b list action" where
  "mapE f [] = returnE []"
| "mapE f (x # xs) = bindE (f x) (\<lambda>y. bindE (mapE f xs) (\<lambda>ys. returnE (y # ys)))"

fun foldE :: "('a \<Rightarrow> 's \<Rightarrow> 's action) \<Rightarrow> 'a list \<Rightarrow> 's \<Rightarrow> 's action" where
  "foldE f [] s = returnE s"
| "foldE f (x # xs) s = bindE (f x s) (\<lambda>s'. foldE f xs s')"

definition lookup :: "filesystem \<Rightarrow> path \<Rightarrow> node option" where
  "lookup t p = map_of t p"

definition existsSync :: "world \<Rightarrow> path \<Rightarrow> bool" where
  "existsSync w p = (lookup (fs w) p \<noteq> None)"

definition isFile :: "world \<Rightarrow> path \<Rightarrow> bool" where
  "isFile w p = (case lookup (fs w) p of Some (File s) \<Rightarrow> True | _ \<Rightarrow> False)"

definition under :: "path \<Rightarrow> path \<Rightarrow> bool" where
  "under d p = (p = d \<or> prefix (d @ ''/'') p)"

definition rebase :: "path \<Rightarrow> path \<Rightarrow> path \<Rightarrow> path" where
  "rebase src dst p = dst @ drop (length src) p"

definition removeTree :: "filesystem \<Rightarrow> path \<Rightarrow> filesystem" where
  "removeTree t p = filter (\<lambda>(q, n). \<not> under p q) t"

text \<open>The entries under \<open>src\<close>, renamed to lie under \<open>dst\<close>.\<close>

definition graft :: "filesystem \<Rightarrow> path \<Rightarrow> path \<Rightarrow> filesystem" where
  "graft t src dst = map (\<lambda>(q, n). (rebase src dst q, n)) (filter (\<lambda>(q, n). under src q) t)"

definition hasChildren :: "filesystem \<Rightarrow> path \<Rightarrow> bool" where
  "hasChildren t d = list_ex (\<lambda>(q, n). under d q \<and> q \<noteq> d) t"

text \<open>The proper ancestors of a path, the root left out: \<^verbatim>\<open>/p/o/x\<close> has \<^verbatim>\<open>/p\<close> and
  \<^verbatim>\<open>/p/o\<close>.\<close>

fun ancestorsFrom :: "path \<Rightarrow> string \<Rightarrow> path list" where
  "ancestorsFrom pre [] = []"
| "ancestorsFrom pre (c # cs) =
     (if c = CHR ''/'' \<and> pre \<noteq> [] then [pre] else []) @ ancestorsFrom (pre @ [c]) cs"

definition ancestors :: "path \<Rightarrow> path list" where
  "ancestors p = ancestorsFrom [] p"

definition mkdirs :: "filesystem \<Rightarrow> path \<Rightarrow> filesystem" where
  "mkdirs t d =
     fold (\<lambda>a t'. if lookup t' a = None then t' @ [(a, Dir)] else t') (ancestors d @ [d]) t"

text \<open>\<^verbatim>\<open>Deno.realPathSync\<close>.\<close>

definition realPathSync :: "path \<Rightarrow> path action" where
  "realPathSync p w = (if existsSync w p then returnE p w else throwE (NotFound p) w)"

text \<open>\<^verbatim>\<open>Deno.removeSync(p, { recursive: true })\<close>.\<close>

definition removeSync :: "path \<Rightarrow> unit action" where
  "removeSync p w =
     (if existsSync w p then returnE () (w\<lparr>fs := removeTree (fs w) p\<rparr>)
      else throwE (NotFound p) w)"

text \<open>\<^verbatim>\<open>ensureDirSync\<close> of \<^verbatim>\<open>fs/mod.ts\<close>: creates the directory and the ancestors that are
  missing; throws when one of them exists and is not a directory.\<close>

definition ensureDirSync :: "path \<Rightarrow> unit action" where
  "ensureDirSync d w =
     (case List.find (\<lambda>a. isFile w a) (ancestors d @ [d]) of
        Some a \<Rightarrow> throwE (NotADirectory a) w
      | None \<Rightarrow> returnE () (w\<lparr>fs := mkdirs (fs w) d\<rparr>))"

text \<open>
  \<^verbatim>\<open>Deno.renameSync\<close>, which is \<^verbatim>\<open>rename(2)\<close>: the source must exist (\<^verbatim>\<open>ENOENT\<close>); renaming a
  path to itself does nothing; nothing lies below a file (\<^verbatim>\<open>ENOTDIR\<close>), a directory cannot
  be moved below itself (\<^verbatim>\<open>EINVAL\<close>) and nothing can be renamed to one of its ancestors, which is a directory that is not empty
  (\<^verbatim>\<open>ENOTEMPTY\<close>); a file does not replace a directory, empty or not (\<^verbatim>\<open>EISDIR\<close>), nor a
  directory a file (\<^verbatim>\<open>ENOTDIR\<close>); a directory replaces an empty directory only
  (\<^verbatim>\<open>ENOTEMPTY\<close>); otherwise the destination is replaced by the source tree.
\<close>

definition renameSync :: "path \<Rightarrow> path \<Rightarrow> unit action" where
  "renameSync src dst w =
     (case lookup (fs w) src of
        None \<Rightarrow> throwE (NotFound src) w
      | Some n \<Rightarrow>
          if src = dst then returnE () w
          else if under src dst
            then throwE (case n of File s \<Rightarrow> NotADirectory src | Dir \<Rightarrow> InvalidArgument dst) w
          else if under dst src then throwE (DirectoryNotEmpty dst) w
          else (case (n, lookup (fs w) dst) of
                  (File s, Some Dir) \<Rightarrow> throwE (IsADirectory dst) w
                | (Dir, Some (File s)) \<Rightarrow> throwE (NotADirectory dst) w
                | other \<Rightarrow>
                    if hasChildren (fs w) dst then throwE (DirectoryNotEmpty dst) w
                    else returnE () (w\<lparr>fs := graft (fs w) src dst @
                                             removeTree (removeTree (fs w) src) dst\<rparr>)))"

text \<open>\<^verbatim>\<open>copySync\<close> of \<^verbatim>\<open>fs/mod.ts\<close> without the overwrite option: the source must exist,
  the destination must not, and a tree is not copied into itself.\<close>

definition copySync :: "path \<Rightarrow> path \<Rightarrow> unit action" where
  "copySync src dst w =
     (if \<not> existsSync w src then throwE (NotFound src) w
      else if src = dst then throwE (Failure ''Source and destination cannot be the same.'') w
      else if existsSync w dst then throwE (AlreadyExists dst) w
      else if under src dst
        then throwE (Failure ''Cannot copy to a subdirectory of itself.'') w
      else returnE () (w\<lparr>fs := graft (fs w) src dst @ fs w\<rparr>))"

text \<open>\<^verbatim>\<open>Deno.readDirSync\<close>: the names of the entries directly in a directory, each with
  whether it is a directory. The source iterates lazily while the loop body moves the
  entries away; the model lists the directory once, before the loop.\<close>

definition readDirSync :: "path \<Rightarrow> (string \<times> bool) list action" where
  "readDirSync d w =
     (case lookup (fs w) d of
        None \<Rightarrow> throwE (NotFound d) w
      | Some (File s) \<Rightarrow> throwE (NotADirectory d) w
      | Some Dir \<Rightarrow>
          returnE (map (\<lambda>(q, n). (drop (length d + 1) q, n = Dir))
                    (filter (\<lambda>(q, n). prefix (d @ ''/'') q \<and> drop (length d + 1) q \<noteq> [] \<and>
                                       CHR ''/'' \<notin> set (drop (length d + 1) q)) (fs w))) w)"

text \<open>\<^verbatim>\<open>warning\<close> of \<^verbatim>\<open>log/mod.ts\<close>.\<close>

definition warning :: "string \<Rightarrow> unit action" where
  "warning msg w = returnE () (w\<lparr>warnings := warnings w @ [msg]\<rparr>)"

subsection \<open>Options, rendered files and results\<close>

record RenderFlags =
  executeDir :: "string option"
  executeDaemon :: "int option"

text \<open>\<^verbatim>\<open>useFreezer\<close> is an optional boolean that the source only tests for truthiness.\<close>

record RenderOptions =
  useFreezer :: bool
  flags :: "RenderFlags option"

text \<open>A file as \<^verbatim>\<open>renderFiles\<close> reports it.\<close>

record RenderedFile =
  rf_input :: path
  rf_markdown :: string
  rf_format :: Format
  rf_file :: path
  rf_supporting :: "path list option"
  rf_globs :: "string list"
  rf_files :: "path list"
  rf_selfContained :: bool

record RenderFilesResult =
  fr_files :: "RenderedFile list"
  fr_error :: "error option"

text \<open>A file of the result of \<^verbatim>\<open>renderProject\<close>.\<close>

record RenderResultFile =
  res_input :: path
  res_markdown :: string
  res_format :: Format
  res_file :: path
  res_supporting :: "path list option"
  res_resourceFiles :: "path list"

record RenderResult =
  baseDir :: path
  outputDir :: "string option"
  result_files :: "RenderResultFile list"
  result_error :: "error option"

datatype PandocRenderer = PandocRenderer string

subsection \<open>The collaborators\<close>

text \<open>The optional hooks of a project type.\<close>

record ProjectType =
  incrementalRenderAll :: "(ProjectContext \<Rightarrow> RenderOptions \<Rightarrow> path list \<Rightarrow> bool action) option"
  preRender :: "(ProjectContext \<Rightarrow> unit action) option"
  postRender :: "(ProjectContext \<Rightarrow> bool \<Rightarrow> (path \<times> Format) list \<Rightarrow> unit action) option"
  pandocRenderer :: "(RenderOptions \<Rightarrow> ProjectContext \<Rightarrow> PandocRenderer) option"
  formatLibDirs :: "string list option"

text \<open>
  The functions \<^verbatim>\<open>renderProject\<close> imports from other modules, none of which is among the
  sources: the project type registry, \<^verbatim>\<open>ensureGitignore\<close>, \<^verbatim>\<open>renderFiles\<close> (the renderer),
  \<^verbatim>\<open>resolvePathGlobs\<close> (which returns the included and the excluded paths) and the freezer
  functions with the name of the visible freezer directory. Each may read and change the
  whole world and may throw.
\<close>

record render_collab =
  projectType :: "string option \<Rightarrow> ProjectType"
  ensureGitignore :: "ProjectContext \<Rightarrow> unit action"
  renderFiles :: "path list \<Rightarrow> RenderOptions \<Rightarrow> path list option \<Rightarrow> PandocRenderer option \<Rightarrow>
                    ProjectContext \<Rightarrow> RenderFilesResult action"
  resolvePathGlobs :: "world \<Rightarrow> path \<Rightarrow> string list \<Rightarrow> string list \<Rightarrow> path list \<times> path list"
  copyToProjectFreezer :: "ProjectContext \<Rightarrow> path \<Rightarrow> bool \<Rightarrow> bool \<Rightarrow> unit action"
  pruneProjectFreezerDir :: "ProjectContext \<Rightarrow> path \<Rightarrow> string list \<Rightarrow> bool \<Rightarrow> unit action"
  pruneProjectFreezer :: "ProjectContext \<Rightarrow> bool \<Rightarrow> unit action"
  kProjectFreezeDir :: path

text \<open>Modelled from the spec: \<^verbatim>\<open>copyResourceFile\<close> of project-resources.ts is not among the
  sources. The specification says of it that the resource is copied into the output
  directory at the matching relative path: the directory of the destination is
  created and the destination then holds what the source file holds.\<close>

definition copyResourceFile :: "pathlib \<Rightarrow> path \<Rightarrow> path \<Rightarrow> path \<Rightarrow> unit action" where
  "copyResourceFile P rootDir srcFile destFile =
     bindE (ensureDirSync (dirname P destFile)) (\<lambda>u w.
       case lookup (fs w) srcFile of
         Some (File s) \<Rightarrow>
           (case lookup (fs w) destFile of
              Some Dir \<Rightarrow> throwE (IsADirectory destFile) w
            | other \<Rightarrow>
                returnE () (w\<lparr>fs := (destFile, File s) #
                                     filter (\<lambda>(q, n). q \<noteq> destFile) (fs w)\<rparr>))
       | Some Dir \<Rightarrow> throwE (IsADirectory srcFile) w
       | None \<Rightarrow> throwE (NotFound srcFile) w)"

text \<open>\<^verbatim>\<open>ld.uniq\<close>: the first occurrence of each element is kept.\<close>

definition uniq :: "'a list \<Rightarrow> 'a list" where
  "uniq xs = rev (remdups (rev xs))"

definition startsWith :: "string \<Rightarrow> string \<Rightarrow> bool" where
  "startsWith s t = prefix t s"


subsection \<open>renderProject: from the arguments to the render\<close>

text \<open>\<^verbatim>\<open>const incremental = !!files\<close>: an array is truthy, the empty one too, so the render
  is incremental exactly when the caller passed a list of files.\<close>

definition incremental :: "path list option \<Rightarrow> bool" where
  "incremental files = (files \<noteq> None)"

text \<open>The callback of \<^verbatim>\<open>files.map\<close> that normalizes a render target.\<close>

definition normalizeTarget :: "pathlib \<Rightarrow> path \<Rightarrow> path action" where
  "normalizeTarget P f w =
     (let target = (if isAbsolute P f then f else join P (cwd w) f)
      in if \<not> existsSync w target
         then throwE (Failure (''Render target does not exist: '' @ f)) w
         else realPathSync target w)"

text \<open>What the first part of \<^verbatim>\<open>renderProject\<close> has computed when it reaches
  \<^verbatim>\<open>Deno.env.set\<close>: its local variables, but for the project type \<open>pt\<close>, which is
  looked up first and handed on as it is.\<close>

record locals =
  projDir :: path
  alwaysExecuteFiles :: "path list option"
  renderTargets :: "path list"
  renderOptions :: RenderOptions
  outputDirAbsolute :: "path option"
  libDir :: "string option"

definition configOf :: "ProjectContext \<Rightarrow> (ProjectConfig \<Rightarrow> string option) \<Rightarrow> string option" where
  "configOf context field = (case config context of None \<Rightarrow> None | Some cfg \<Rightarrow> field cfg)"

definition renderProject_setup ::
  "pathlib \<Rightarrow> render_collab \<Rightarrow> ProjectType \<Rightarrow> ProjectContext \<Rightarrow> RenderOptions \<Rightarrow>
     path list option \<Rightarrow> locals action" where
  "renderProject_setup P c pt context options files =
     (bindE (realPathSync (dir context)) (\<lambda>pd.
         let always = (if incremental files \<and> \<not> useFreezer options then files else None)
         in bindE (case (always, files) of
                     (Some a, Some fl) \<Rightarrow> bindE (mapE (normalizeTarget P) fl) (\<lambda>fl'. returnE (Some fl'))
                   | other \<Rightarrow> returnE files) (\<lambda>files1.
            bindE (case (files1, always, incrementalRenderAll pt) of
                     (Some fl, Some a, Some renderAll) \<Rightarrow> renderAll context options fl
                   | other \<Rightarrow> returnE False) (\<lambda>renderAll.
            let files2 = (if renderAll then Some (files_input context) else files1);
                options1 = (if renderAll then options\<lparr>useFreezer := True\<rparr> else options);
                files3 = (case files2 of Some fl \<Rightarrow> fl | None \<Rightarrow> files_input context)
            in bindE (ensureGitignore c context) (\<lambda>u.
               bindE (case preRender pt of Some pre \<Rightarrow> pre context | None \<Rightarrow> returnE ()) (\<lambda>u.
               let execDir = configOf context project_execute_dir;
                   options2 =
                     (if (case flags options1 of None \<Rightarrow> None | Some fl \<Rightarrow> executeDir fl) = None \<and>
                         execDir = Some ''project''
                      then options1\<lparr>flags := Some
                             ((case flags options1 of
                                 None \<Rightarrow> \<lparr>executeDir = None, executeDaemon = None\<rparr>
                               | Some fl \<Rightarrow> fl)\<lparr>executeDir := Some pd\<rparr>)\<rparr>
                      else options1);
                   options3 =
                     (case flags options2 of
                        Some fl \<Rightarrow>
                          if length files3 > 1 \<and> executeDaemon fl = None
                          then options2\<lparr>flags := Some (fl\<lparr>executeDaemon := Some 0\<rparr>)\<rparr>
                          else options2
                      | None \<Rightarrow> options2);
                   outDir = configOf context project_output_dir;
                   outAbs = (if truthyStr outDir then Some (join P pd (the outDir)) else None)
               in bindE (case outAbs of Some d \<Rightarrow> ensureDirSync d | None \<Rightarrow> returnE ()) (\<lambda>u.
                  returnE \<lparr>projDir = pd, alwaysExecuteFiles = always,
                           renderTargets = files3, renderOptions = options3,
                           outputDirAbsolute = outAbs,
                           libDir = configOf context project_lib_dir\<rparr>)))))))"

subsection \<open>renderProject: relocation\<close>

text \<open>\<^verbatim>\<open>relocateDir\<close>, the local function that moves or copies a directory of the project
  into the output directory.\<close>

definition relocateDir :: "pathlib \<Rightarrow> path \<Rightarrow> path \<Rightarrow> path \<Rightarrow> bool \<Rightarrow> unit action" where
  "relocateDir P outAbs pd d copy =
     (let targetDir = join P outAbs d
      in bindE (\<lambda>w. if existsSync w targetDir then removeSync targetDir w else returnE () w) (\<lambda>u.
         let srcDir = join P pd d
         in (\<lambda>w. if existsSync w srcDir
                  then bindE (ensureDirSync (dirname P targetDir))
                         (\<lambda>u. if copy then copySync srcDir targetDir
                               else renameSync srcDir targetDir) w
                  else returnE () w)))"

text \<open>The first statements of the loop over the rendered files: the rendered file is
  moved to the output directory.\<close>

definition moveRenderedFile :: "pathlib \<Rightarrow> path \<Rightarrow> path \<Rightarrow> RenderedFile \<Rightarrow> unit action" where
  "moveRenderedFile P outAbs pd renderedFile =
     (let outputFile = join P outAbs (rf_file renderedFile)
      in bindE (ensureDirSync (dirname P outputFile)) (\<lambda>u.
         renameSync (join P pd (rf_file renderedFile)) outputFile))"

text \<open>The resource files of a rendered file: the globs resolved against the directory of
  the file, the explicitly listed files that exist (unless the output is
  self-contained), less the excluded paths and the paths that start with one of the
  file's supporting directories.\<close>

definition explicitResourceFiles :: "pathlib \<Rightarrow> path \<Rightarrow> RenderedFile \<Rightarrow> path list action" where
  "explicitResourceFiles P resourceDir renderedFile w =
     mapE realPathSync
       (filter (existsSync w) (map (\<lambda>f. join P resourceDir f) (rf_files renderedFile))) w"

definition keepResource :: "pathlib \<Rightarrow> path \<Rightarrow> RenderedFile \<Rightarrow> path list \<Rightarrow> path \<Rightarrow> bool" where
  "keepResource P pd renderedFile excluded f =
     (if f \<in> set excluded then False
      else if (case rf_supporting renderedFile of
                 None \<Rightarrow> False
               | Some dirs \<Rightarrow> list_ex (\<lambda>support. startsWith f (join P pd support)) dirs)
      then False
      else True)"

definition resourceFilesOf ::
  "pathlib \<Rightarrow> render_collab \<Rightarrow> path \<Rightarrow> RenderedFile \<Rightarrow> path list action" where
  "resourceFilesOf P c pd renderedFile w =
     (let resourceDir = join P pd (dirname P (rf_file renderedFile));
          globs = rf_globs renderedFile;
          fileResourceFiles =
            (if length globs > 0 then resolvePathGlobs c w resourceDir globs [] else ([], []))
      in bindE (if \<not> rf_selfContained renderedFile
                then explicitResourceFiles P resourceDir renderedFile
                else returnE []) (\<lambda>resultFiles.
         returnE (filter (keepResource P pd renderedFile (snd fileResourceFiles))
                    (fst fileResourceFiles @ resultFiles))) w)"

text \<open>The body of the loop over the rendered files. The state of the loop is
  \<^verbatim>\<open>keepLibsDir\<close> and the files pushed to \<^verbatim>\<open>projResults.files\<close> so far.\<close>

definition relocateRenderedFile ::
  "pathlib \<Rightarrow> render_collab \<Rightarrow> path \<Rightarrow> path \<Rightarrow> RenderedFile \<Rightarrow>
     bool \<times> RenderResultFile list \<Rightarrow> (bool \<times> RenderResultFile list) action" where
  "relocateRenderedFile P c outAbs pd renderedFile st =
     bindE (moveRenderedFile P outAbs pd renderedFile) (\<lambda>u.
     let keepFiles = execute_keep_md (rf_format renderedFile);
         keepLibsDir = (fst st \<or> keepFiles)
     in bindE (case rf_supporting renderedFile of
                 Some dirs \<Rightarrow> forEachE (\<lambda>f. relocateDir P outAbs pd f keepFiles) dirs
               | None \<Rightarrow> returnE ()) (\<lambda>u.
        bindE (resourceFilesOf P c pd renderedFile) (\<lambda>resourceFiles.
        returnE (keepLibsDir,
                 snd st @ [\<lparr>res_input = rf_input renderedFile,
                            res_markdown = rf_markdown renderedFile,
                            res_format = rf_format renderedFile,
                            res_file = rf_file renderedFile,
                            res_supporting = rf_supporting renderedFile,
                            res_resourceFiles = resourceFiles\<rparr>]))))"

text \<open>The library directory: one subdirectory at a time when the libraries are merged
  incrementally, the whole directory otherwise.\<close>

definition mergeLibDir ::
  "pathlib \<Rightarrow> path \<Rightarrow> path \<Rightarrow> path \<Rightarrow> path \<Rightarrow> bool \<Rightarrow> bool \<Rightarrow> unit action" where
  "mergeLibDir P outAbs pd ld libDirFull libsIncremental keepLibsDir =
     (if libsIncremental then
        bindE (readDirSync libDirFull) (\<lambda>libs.
        bindE (forEachE (\<lambda>(name, isDir).
                 if isDir then relocateDir P outAbs pd (join P ld name) keepLibsDir
                 else returnE ()) libs) (\<lambda>u.
        if \<not> keepLibsDir then removeSync libDirFull else returnE ()))
      else relocateDir P outAbs pd ld keepLibsDir)"

definition freezeLibDir ::
  "render_collab \<Rightarrow> ProjectContext \<Rightarrow> path \<Rightarrow> string list \<Rightarrow> bool \<Rightarrow> bool \<Rightarrow> unit action" where
  "freezeLibDir c context ld formatLibs libsIncremental hidden =
     bindE (copyToProjectFreezer c context ld hidden libsIncremental) (\<lambda>u.
     bindE (pruneProjectFreezerDir c context ld formatLibs hidden) (\<lambda>u.
     pruneProjectFreezer c context hidden))"

definition relocateLibDir ::
  "pathlib \<Rightarrow> render_collab \<Rightarrow> ProjectType \<Rightarrow> ProjectContext \<Rightarrow> locals \<Rightarrow> bool \<Rightarrow> path \<Rightarrow>
     bool \<Rightarrow> unit action" where
  "relocateLibDir P c pt context l inc outAbs keepLibsDir =
     (if truthyStr (libDir l) then
        (let ld = the (libDir l);
             libDirFull = join P (dir context) ld
         in (\<lambda>w. if existsSync w libDirFull then
              (let libsIncremental = (inc \<or> useFreezer (renderOptions l));
                   formatLibs = (case formatLibDirs pt of Some ds \<Rightarrow> ds | None \<Rightarrow> [])
               in bindE (freezeLibDir c context ld formatLibs libsIncremental True) (\<lambda>u.
                  bindE (\<lambda>w'. if existsSync w' (join P (dir context) (kProjectFreezeDir c))
                               then freezeLibDir c context ld formatLibs libsIncremental False w'
                               else returnE () w') (\<lambda>u.
                  mergeLibDir P outAbs (projDir l) ld libDirFull libsIncremental keepLibsDir))) w
            else returnE () w))
      else returnE ())"

text \<open>The loop that copies the resource files to the output directory.\<close>

definition copyResource :: "pathlib \<Rightarrow> ProjectContext \<Rightarrow> path \<Rightarrow> path \<Rightarrow> path \<Rightarrow> unit action" where
  "copyResource P context pd outAbs f w =
     (let sourcePath = relative P pd f;
          destPath = join P outAbs sourcePath
      in if existsSync w f then
           (if isFile w f then copyResourceFile P (dir context) f destPath w
            else returnE () w)
         else if \<not> existsSync w destPath
           then warning (''File '' @ [CHR 0x27] @ sourcePath @ [CHR 0x27] @ '' was not found.'') w
         else returnE () w)"

definition withoutOutputs :: "path list \<Rightarrow> RenderResultFile \<Rightarrow> RenderResultFile" where
  "withoutOutputs outputFiles r =
     r\<lparr>res_resourceFiles := filter (\<lambda>resource. resource \<notin> set outputFiles) (res_resourceFiles r)\<rparr>"

text \<open>The branch of \<^verbatim>\<open>renderProject\<close> taken when there is an output directory.\<close>

definition relocateOutputs ::
  "pathlib \<Rightarrow> render_collab \<Rightarrow> ProjectType \<Rightarrow> ProjectContext \<Rightarrow> locals \<Rightarrow> bool \<Rightarrow> path \<Rightarrow>
     RenderFilesResult \<Rightarrow> RenderResultFile list action" where
  "relocateOutputs P c pt context l inc outAbs fileResults =
     bindE (foldE (relocateRenderedFile P c outAbs (projDir l)) (fr_files fileResults) (False, []))
       (\<lambda>(keepLibsDir, results).
     bindE (relocateLibDir P c pt context l inc outAbs keepLibsDir) (\<lambda>u.
     let outputFiles = map (\<lambda>r. join P (projDir l) (res_file r)) results;
         results' = map (withoutOutputs outputFiles) results;
         allResourceFiles =
           uniq ((case files_resources context of Some rs \<Rightarrow> rs | None \<Rightarrow> []) @
                 concat (map res_resourceFiles results'))
     in bindE (forEachE (copyResource P context (projDir l) outAbs) allResourceFiles) (\<lambda>u.
        returnE results')))"

definition untracked :: "RenderedFile \<Rightarrow> RenderResultFile" where
  "untracked r =
     \<lparr>res_input = rf_input r, res_markdown = rf_markdown r, res_format = rf_format r,
      res_file = rf_file r, res_supporting = rf_supporting r, res_resourceFiles = []\<rparr>"

subsection \<open>renderProject\<close>

text \<open>The body of the \<^verbatim>\<open>try\<close> block.\<close>

definition renderProject_render ::
  "pathlib \<Rightarrow> render_collab \<Rightarrow> ProjectType \<Rightarrow> ProjectContext \<Rightarrow> path list option \<Rightarrow>
     locals \<Rightarrow> RenderResult action" where
  "renderProject_render P c pt context files l =
     bindE (renderFiles c (renderTargets l) (renderOptions l) (alwaysExecuteFiles l)
              (case pandocRenderer pt of
                 Some mk \<Rightarrow> Some (mk (renderOptions l) context)
               | None \<Rightarrow> None)
              context) (\<lambda>fileResults.
     bindE (case outputDirAbsolute l of
              Some outAbs \<Rightarrow>
                relocateOutputs P c pt context l (incremental files) outAbs fileResults
            | None \<Rightarrow> returnE (map untracked (fr_files fileResults))) (\<lambda>results.
     let outDir = configOf context project_output_dir;
         projResults = \<lparr>baseDir = projDir l, outputDir = outDir, result_files = results,
                        result_error = fr_error fileResults\<rparr>
     in bindE (case postRender pt of
                 Some post \<Rightarrow>
                   post context (incremental files)
                     (map (\<lambda>r. (join P (projDir l)
                                   (if truthyStr outDir then join P (the outDir) (res_file r)
                                    else res_file r),
                                 res_format r)) results)
               | None \<Rightarrow> returnE ()) (\<lambda>u.
        returnE projResults)))"

definition setProjectDir :: "path \<Rightarrow> unit action" where
  "setProjectDir pd w = returnE () (w\<lparr>env_QUARTO_PROJECT_DIR := Some pd\<rparr>)"

definition deleteProjectDir :: "world \<Rightarrow> world" where
  "deleteProjectDir w = w\<lparr>env_QUARTO_PROJECT_DIR := None\<rparr>"

definition renderProject ::
  "pathlib \<Rightarrow> render_collab \<Rightarrow> ProjectContext \<Rightarrow> RenderOptions \<Rightarrow> path list option \<Rightarrow>
     RenderResult action" where
  "renderProject P c context options files =
     (let pt = projectType c (configOf context project_type)
      in bindE (renderProject_setup P c pt context options files) (\<lambda>l.
         bindE (setProjectDir (projDir l)) (\<lambda>u.
         tryFinally (renderProject_render P c pt context files l) deleteProjectDir)))"

subsection \<open>Notions used in the statements\<close>

text \<open>The world after the first statement of \<^verbatim>\<open>relocateDir\<close>: the target removed if it
  existed.\<close>

definition cleared :: "world \<Rightarrow> path \<Rightarrow> world" where
  "cleared w tgt = (if existsSync w tgt then w\<lparr>fs := removeTree (fs w) tgt\<rparr> else w)"

text \<open>A file system is a tree: where a path does not exist, nothing exists below it.
  \<open>treeAt w p\<close> says so of the path \<open>p\<close>.\<close>

definition treeAt :: "world \<Rightarrow> path \<Rightarrow> bool" where
  "treeAt w p = (existsSync w p \<or> list_all (\<lambda>(q, n). \<not> under p q) (fs w))"





text \<open>The collaborators \<open>c\<close>, but with every post-render hook handed the flag \<open>b\<close> in
  place of the \<^verbatim>\<open>incremental\<close> argument it is called with.\<close>

definition withPostRenderFlag :: "bool \<Rightarrow> render_collab \<Rightarrow> render_collab" where
  "withPostRenderFlag b c =
     c\<lparr>projectType := (\<lambda>t. (projectType c t)\<lparr>postRender :=
          map_option (\<lambda>post ctx inc. post ctx b) (postRender (projectType c t))\<rparr>)\<rparr>"

text \<open>The resource files of a result file start with none of the file's own supporting
  directories.\<close>

definition clearOfSupporting :: "pathlib \<Rightarrow> path \<Rightarrow> RenderResultFile \<Rightarrow> bool" where
  "clearOfSupporting P pd r =
     (\<forall>x \<in> set (res_resourceFiles r). \<forall>dirs. res_supporting r = Some dirs \<longrightarrow>
        (\<forall>s \<in> set dirs. \<not> startsWith x (join P pd s)))"


section \<open>Concrete instances\<close>

text \<open>A small path library, collaborators and worlds on which the definitions are
  evaluated. The project lives in \<^verbatim>\<open>/p\<close>.\<close>

definition demo_dirname :: "path \<Rightarrow> path" where
  "demo_dirname p =
     (if CHR ''/'' \<in> set p then rev (drop 1 (dropWhile (\<lambda>c. c \<noteq> CHR ''/'') (rev p))) else ''.'')"

definition demo_paths :: pathlib where
  "demo_paths =
     \<lparr>join = (\<lambda>a b. if b = ''.'' then a else a @ ''/'' @ b),
      dirname = demo_dirname,
      relative = (\<lambda>a b. if prefix (a @ ''/'') b then drop (length a + 1) b else b),
      isAbsolute = (\<lambda>p. take 1 p = ''/'')\<rparr>"

definition demo_index :: InputTargetIndex where
  "demo_index =
     \<lparr>title = Some ''Intro'',
      markdown = \<lparr>headingText = Some ''Intro'', markdown_body = ''text''\<rparr>,
      formats = [(''html'', \<lparr>metadata_title = None, execute_keep_md = False\<rparr>)]\<rparr>"

definition demo_engine :: ExecutionEngine where
  "demo_engine =
     \<lparr>partitionedMarkdown =
        (\<lambda>p w. (Inr \<lparr>headingText = Some ''Intro'', markdown_body = ''text''\<rparr>, w))\<rparr>"

definition demo_index_collab :: index_collab where
  "demo_index_collab =
     \<lparr>fileExecutionEngine = (\<lambda>p. Some demo_engine),
      renderFormats = (\<lambda>p t ctx w.
         (Inr [(''html'', \<lparr>metadata_title = None, execute_keep_md = False\<rparr>)], w)),
      JSON_parse = (\<lambda>s. if s = ''index'' then Some (Truthy demo_index)
                          else if s = ''null'' then Some Falsy else None),
      JSON_stringify = (\<lambda>i. ''index''),
      projectScratchPath = (\<lambda>d p. d @ ''/.quarto/'' @ p)\<rparr>"

definition demo_project :: ProjectContext where
  "demo_project =
     \<lparr>dir = ''/p'', config = None, files_input = [''/p/a.qmd'', ''/p/b.qmd''],
      files_resources = None\<rparr>"

definition demo_iworld :: "int option \<Rightarrow> fileInfo option \<Rightarrow> int option option \<Rightarrow> iworld" where
  "demo_iworld inputMod indexEntry configMod =
     \<lparr>entries = (\<lambda>p.
        if p = ''/p/a.qmd''
          then Some \<lparr>isDirectory = False, mtime = inputMod, contents = ''# Intro''\<rparr>
        else if p = ''/p/.quarto/index/a.qmd.json'' then indexEntry
        else if p = ''/p/_quarto.yml''
          then map_option (\<lambda>m. \<lparr>isDirectory = False, mtime = m, contents = ''project:''\<rparr>) configMod
        else None),
      stamp = Some 200\<rparr>"

definition cacheFile :: "int option \<Rightarrow> string \<Rightarrow> fileInfo option" where
  "cacheFile m s = Some \<lparr>isDirectory = False, mtime = m, contents = s\<rparr>"



definition demo_format :: "bool \<Rightarrow> Format" where
  "demo_format keep = \<lparr>metadata_title = None, execute_keep_md = keep\<rparr>"

text \<open>The rendered file \<^verbatim>\<open>a.html\<close> with its supporting directory \<^verbatim>\<open>a_files\<close>, a
  resource glob and four explicitly listed resources. The glob is resolved (by the demo
  collaborators below) to the rendered file itself, a figure under the supporting
  directory and \<^verbatim>\<open>data.csv\<close>.\<close>

definition demo_rendered :: RenderedFile where
  "demo_rendered =
     \<lparr>rf_input = ''/p/a.qmd'', rf_markdown = ''# A'', rf_format = demo_format False,
      rf_file = ''a.html'', rf_supporting = Some [''a_files''], rf_globs = [''*''],
      rf_files = [''data.csv'', ''missing.png'', ''a_files/fig.png'', ''a.html''],
      rf_selfContained = False\<rparr>"

text \<open>A project type whose post-render hook logs the flag it is handed, and a renderer
  that logs the value of \<^verbatim>\<open>QUARTO_PROJECT_DIR\<close> it sees and the always-execute list it is
  handed.\<close>

definition demo_projectType :: ProjectType where
  "demo_projectType =
     \<lparr>incrementalRenderAll = None, preRender = None,
      postRender = Some (\<lambda>ctx inc outs.
        warning (if inc then ''post-render: incremental'' else ''post-render: full'')),
      pandocRenderer = None, formatLibDirs = None\<rparr>"

definition demo_renderFiles ::
  "path list \<Rightarrow> RenderOptions \<Rightarrow> path list option \<Rightarrow> PandocRenderer option \<Rightarrow>
     ProjectContext \<Rightarrow> RenderFilesResult action" where
  "demo_renderFiles targets opts always pr ctx =
     bindE (\<lambda>w. warning (''QUARTO_PROJECT_DIR='' @
              (case env_QUARTO_PROJECT_DIR w of Some d \<Rightarrow> d | None \<Rightarrow> ''(not set)'')) w) (\<lambda>u.
     bindE (warning (''always-execute:'' @
              concat (map (\<lambda>f. '' '' @ f) (case always of Some fl \<Rightarrow> fl | None \<Rightarrow> []))))
       (\<lambda>u. returnE \<lparr>fr_files = [demo_rendered], fr_error = None\<rparr>))"

definition demo_collab :: render_collab where
  "demo_collab =
     \<lparr>projectType = (\<lambda>t. demo_projectType),
      ensureGitignore = (\<lambda>ctx. returnE ()),
      renderFiles = demo_renderFiles,
      resolvePathGlobs = (\<lambda>w d globs excl.
        ([''/p/a.html'', ''/p/a_files/fig.png'', ''/p/data.csv''], [])),
      copyToProjectFreezer = (\<lambda>ctx d hidden inc. returnE ()),
      pruneProjectFreezerDir = (\<lambda>ctx d libs hidden. returnE ()),
      pruneProjectFreezer = (\<lambda>ctx hidden. returnE ()),
      kProjectFreezeDir = ''_freeze''\<rparr>"

definition demo_context :: ProjectContext where
  "demo_context =
     \<lparr>dir = ''/p'',
      config = Some \<lparr>project_type = None, project_output_dir = Some ''o'',
                     project_lib_dir = Some ''lib'', project_execute_dir = None\<rparr>,
      files_input = [''/p/a.qmd'', ''/p/b.qmd''],
      files_resources = Some [''/p/gone.txt'']\<rparr>"

definition demo_options :: RenderOptions where
  "demo_options = \<lparr>useFreezer = False, flags = None\<rparr>"

text \<open>The project after \<^verbatim>\<open>a.qmd\<close> was rendered in place, with the output of an earlier
  run in \<^verbatim>\<open>/p/o\<close>.\<close>

definition demo_fs :: filesystem where
  "demo_fs =
     [(''/p'', Dir),
      (''/p/a.qmd'', File ''# A''),
      (''/p/b.qmd'', File ''# B''),
      (''/p/data.csv'', File ''1,2''),
      (''/p/a.html'', File ''new page''),
      (''/p/a_files'', Dir),
      (''/p/a_files/fig.png'', File ''new figure''),
      (''/p/lib'', Dir),
      (''/p/lib/A'', Dir),
      (''/p/lib/A/a.js'', File ''new a''),
      (''/p/o'', Dir),
      (''/p/o/a.html'', File ''old page''),
      (''/p/o/a_files'', Dir),
      (''/p/o/a_files/fig.png'', File ''old figure''),
      (''/p/o/a_files/stale.png'', File ''stale figure''),
      (''/p/o/lib'', Dir),
      (''/p/o/lib/A'', Dir),
      (''/p/o/lib/A/old.js'', File ''old a''),
      (''/p/o/lib/B'', Dir),
      (''/p/o/lib/B/b.js'', File ''b'')]"

definition demo_world :: "filesystem \<Rightarrow> string option \<Rightarrow> world" where
  "demo_world t e = \<lparr>fs = t, cwd = ''/p'', env_QUARTO_PROJECT_DIR = e, warnings = []\<rparr>"


text \<open>A project whose output directory holds a directory where the rendered
  file \<^verbatim>\<open>a.html\<close> is to go.\<close>

definition demo_fs_blocked :: filesystem where
  "demo_fs_blocked =
     [(''/p'', Dir),
      (''/p/a.qmd'', File ''# A''),
      (''/p/a.html'', File ''new page''),
      (''/p/o'', Dir),
      (''/p/o/a.html'', Dir),
      (''/p/o/a.html/old.txt'', File ''old'')]"

section \<open>Properties of the input target index\<close>

lemma projectConfigFile_exists:
  "projectConfigFile P w d = Some f \<Longrightarrow> \<exists>i. entries w f = Some i"
  by (auto simp: projectConfigFile_def iexists_def split: if_splits)

lemma parseIndexFile_Some:
  "parseIndexFile c w p = Some v \<longleftrightarrow>
     (\<exists>i. entries w p = Some i \<and> \<not> isDirectory i \<and> JSON_parse c (contents i) = Some v)"
  by (auto simp: parseIndexFile_def readTextFileSync_def split: option.splits)

text \<open>What \<^verbatim>\<open>readInputTargetIndex\<close> returns, by whether the cache file exists.\<close>

lemma readInputTargetIndex_missing:
  "entries w (inputTargetIndexFile P c projectDir inp) = None \<Longrightarrow>
   readInputTargetIndex P c w projectDir inp = Inr None"
  by (simp add: readInputTargetIndex_def Let_def iexists_def)

lemma readInputTargetIndex_present:
  assumes "entries w (inputTargetIndexFile P c projectDir inp) = Some indexStat"
    and "entries w (join P projectDir inp) = Some inputStat"
  shows "readInputTargetIndex P c w projectDir inp =
     Inr (if (\<exists>a b. mtime inputStat = Some a \<and> mtime indexStat = Some b \<and> a \<le> b \<and>
                (\<forall>f i m. projectConfigFile P w projectDir = Some f \<and> f \<noteq> [] \<and>
                    entries w f = Some i \<and> mtime i = Some m \<longrightarrow> m \<le> b))
          then parseIndexFile c w (inputTargetIndexFile P c projectDir inp) else None)"
proof (cases "projectConfigFile P w projectDir")
  case None
  with assms show ?thesis
    by (auto simp: readInputTargetIndex_def Let_def iexists_def statSync_def mtimeOf_def js_ge_def
        split: option.splits)
next
  case (Some f)
  then obtain i where "entries w f = Some i"
    using projectConfigFile_exists by blast
  with Some assms show ?thesis
    by (auto simp: readInputTargetIndex_def Let_def iexists_def statSync_def mtimeOf_def js_ge_def
        split: option.splits)
qed


lemma indexInput_persists:
  "indexInput P c project inp engine w = (Inr r, w') \<Longrightarrow>
   \<exists>index. r = Some index \<and>
     map_option contents (entries w' (inputTargetIndexFile P c (dir project) inp)) =
       Some (JSON_stringify c index)"
  by (auto simp: indexInput_def Let_def writeTextFileSync_def
      split: prod.splits sum.splits option.splits if_splits)

lemma inputTargetIndex_reuses:
  assumes "entries w (join P (dir project) inp) = Some st" "\<not> isDirectory st"
    and "fileExecutionEngine c (join P (dir project) inp) = Some engine"
    and "readInputTargetIndex P c w (dir project) inp = Inr (Some (Truthy t))"
  shows "inputTargetIndex P c project inp w = (Inr (Some t), w)"
  using assms by (simp add: inputTargetIndex_def Let_def iexists_def statSync_def)

lemma readInputTargetIndex_no_throw:
  assumes "entries w (join P projectDir inp) = Some st"
  shows "readInputTargetIndex P c w projectDir inp \<noteq> Inl e"
proof (cases "entries w (inputTargetIndexFile P c projectDir inp)")
  case None
  then show ?thesis by (simp add: readInputTargetIndex_missing)
next
  case (Some indexStat)
  then show ?thesis using assms by (simp add: readInputTargetIndex_present)
qed

lemma inputTargetIndex_regenerates:
  assumes "entries w (join P (dir project) inp) = Some st" "\<not> isDirectory st"
    and "fileExecutionEngine c (join P (dir project) inp) = Some engine"
    and "\<forall>t. readInputTargetIndex P c w (dir project) inp \<noteq> Inr (Some (Truthy t))"
  shows "inputTargetIndex P c project inp w = indexInput P c project inp engine w"
proof -
  obtain r where r: "readInputTargetIndex P c w (dir project) inp = Inr r"
    using readInputTargetIndex_no_throw[OF assms(1)]
    by (cases "readInputTargetIndex P c w (dir project) inp") auto
  with assms(4) have "\<forall>t. r \<noteq> Some (Truthy t)" by simp
  with r assms(1-3) show ?thesis
    by (auto simp: inputTargetIndex_def Let_def iexists_def statSync_def
        split: option.splits parsed.splits)
qed

lemma readInputTargetIndex_Some_iff:
  "readInputTargetIndex P c w projectDir inp = Inr (Some v) \<longleftrightarrow>
     (\<exists>indexStat inputStat a b.
        entries w (inputTargetIndexFile P c projectDir inp) = Some indexStat \<and>
        entries w (join P projectDir inp) = Some inputStat \<and>
        mtime inputStat = Some a \<and> mtime indexStat = Some b \<and> a \<le> b \<and>
        (\<forall>f i m. projectConfigFile P w projectDir = Some f \<and> f \<noteq> [] \<and>
            entries w f = Some i \<and> mtime i = Some m \<longrightarrow> m \<le> b) \<and>
        \<not> isDirectory indexStat \<and> JSON_parse c (contents indexStat) = Some v)"
  apply (cases "projectConfigFile P w projectDir")
  subgoal
    by (auto simp: readInputTargetIndex_def Let_def iexists_def statSync_def mtimeOf_def js_ge_def
        parseIndexFile_Some split: option.splits sum.splits if_splits)
  subgoal for f
    apply (frule projectConfigFile_exists)
    by (auto simp: readInputTargetIndex_def Let_def iexists_def statSync_def mtimeOf_def js_ge_def
        parseIndexFile_Some split: option.splits sum.splits if_splits)
  done

text \<open>
  Claim C1, as amended. \<^verbatim>\<open>readInputTargetIndex\<close> returns a persisted cache entry if and only
  if the cache file exists, the file system reports a modification time for the input
  file and for the cache file, the cache file's is not older than the input file's, the
  cache file is not older than the project configuration file (when there is one and
  it reports a modification time), and the contents of the cache file deserialize.
  For an input that exists, is not a directory and is claimed by an engine,
  \<^verbatim>\<open>inputTargetIndex\<close> returns a truthy cached entry as it is, leaving the file system
  untouched, and in every other case takes the regeneration path, which on success has
  written the new entry to the cache file.
\<close>

theorem cache_entry_reused_iff_fresh_and_parsable:
  "(readInputTargetIndex P c w (dir project) inp = Inr (Some v) \<longleftrightarrow>
     (\<exists>indexStat inputStat a b.
        entries w (inputTargetIndexFile P c (dir project) inp) = Some indexStat \<and>
        entries w (join P (dir project) inp) = Some inputStat \<and>
        mtime inputStat = Some a \<and> mtime indexStat = Some b \<and> a \<le> b \<and>
        (\<forall>f i m. projectConfigFile P w (dir project) = Some f \<and> f \<noteq> [] \<and>
            entries w f = Some i \<and> mtime i = Some m \<longrightarrow> m \<le> b) \<and>
        \<not> isDirectory indexStat \<and> JSON_parse c (contents indexStat) = Some v)) \<and>
   (\<forall>st engine.
      entries w (join P (dir project) inp) = Some st \<and> \<not> isDirectory st \<and>
      fileExecutionEngine c (join P (dir project) inp) = Some engine \<longrightarrow>
      (\<forall>t. readInputTargetIndex P c w (dir project) inp = Inr (Some (Truthy t)) \<longrightarrow>
           inputTargetIndex P c project inp w = (Inr (Some t), w)) \<and>
      ((\<forall>t. readInputTargetIndex P c w (dir project) inp \<noteq> Inr (Some (Truthy t))) \<longrightarrow>
           inputTargetIndex P c project inp w = indexInput P c project inp engine w) \<and>
      (\<forall>r w'. indexInput P c project inp engine w = (Inr r, w') \<longrightarrow>
           (\<exists>index. r = Some index \<and>
              map_option contents (entries w' (inputTargetIndexFile P c (dir project) inp)) =
                Some (JSON_stringify c index))))"
proof (intro conjI allI impI)
  show "readInputTargetIndex P c w (dir project) inp = Inr (Some v) \<longleftrightarrow>
     (\<exists>indexStat inputStat a b.
        entries w (inputTargetIndexFile P c (dir project) inp) = Some indexStat \<and>
        entries w (join P (dir project) inp) = Some inputStat \<and>
        mtime inputStat = Some a \<and> mtime indexStat = Some b \<and> a \<le> b \<and>
        (\<forall>f i m. projectConfigFile P w (dir project) = Some f \<and> f \<noteq> [] \<and>
            entries w f = Some i \<and> mtime i = Some m \<longrightarrow> m \<le> b) \<and>
        \<not> isDirectory indexStat \<and> JSON_parse c (contents indexStat) = Some v)"
    by (rule readInputTargetIndex_Some_iff)
next
  fix st engine t
  assume "entries w (join P (dir project) inp) = Some st \<and> \<not> isDirectory st \<and>
      fileExecutionEngine c (join P (dir project) inp) = Some engine"
    and "readInputTargetIndex P c w (dir project) inp = Inr (Some (Truthy t))"
  then show "inputTargetIndex P c project inp w = (Inr (Some t), w)"
    by (simp add: inputTargetIndex_reuses)
next
  fix st engine
  assume "entries w (join P (dir project) inp) = Some st \<and> \<not> isDirectory st \<and>
      fileExecutionEngine c (join P (dir project) inp) = Some engine"
    and "\<forall>t. readInputTargetIndex P c w (dir project) inp \<noteq> Inr (Some (Truthy t))"
  then show "inputTargetIndex P c project inp w = indexInput P c project inp engine w"
    by (simp add: inputTargetIndex_regenerates)
next
  fix st engine r w'
  assume "indexInput P c project inp engine w = (Inr r, w')"
  then show "\<exists>index. r = Some index \<and>
      map_option contents (entries w' (inputTargetIndexFile P c (dir project) inp)) =
        Some (JSON_stringify c index)"
    by (rule indexInput_persists)
qed

lemmas demo_index_defs =
  demo_paths_def demo_index_collab_def demo_iworld_def cacheFile_def demo_project_def
  inputTargetIndexFile_def indexPath_def projectConfigFile_def iexists_def

text \<open>
  The two examples of the specification: cache 100, input 50, configuration 40 is
  reused and nothing is regenerated; cache 100, input 150 is not reused and the
  regeneration path is taken.
\<close>

theorem cache_entry_reused_iff_fresh_and_parsable_witness:
  "readInputTargetIndex demo_paths demo_index_collab
       (demo_iworld (Some 50) (cacheFile (Some 100) ''index'') (Some (Some 40)))
       (dir demo_project) ''a.qmd'' = Inr (Some (Truthy demo_index)) \<and>
   inputTargetIndex demo_paths demo_index_collab demo_project ''a.qmd''
       (demo_iworld (Some 50) (cacheFile (Some 100) ''index'') (Some (Some 40))) =
     (Inr (Some demo_index),
      demo_iworld (Some 50) (cacheFile (Some 100) ''index'') (Some (Some 40))) \<and>
   readInputTargetIndex demo_paths demo_index_collab
       (demo_iworld (Some 150) (cacheFile (Some 100) ''index'') None)
       (dir demo_project) ''a.qmd'' \<noteq> Inr (Some (Truthy demo_index)) \<and>
   inputTargetIndex demo_paths demo_index_collab demo_project ''a.qmd''
       (demo_iworld (Some 150) (cacheFile (Some 100) ''index'') None) =
     indexInput demo_paths demo_index_collab demo_project ''a.qmd'' demo_engine
       (demo_iworld (Some 150) (cacheFile (Some 100) ''index'') None)"
proof -
  let ?w1 = "demo_iworld (Some 50) (cacheFile (Some 100) ''index'') (Some (Some 40))"
  let ?w2 = "demo_iworld (Some 150) (cacheFile (Some 100) ''index'') None"
  note t1 = cache_entry_reused_iff_fresh_and_parsable
      [of demo_paths demo_index_collab ?w1 demo_project "''a.qmd''" "Truthy demo_index"]
  have r1: "readInputTargetIndex demo_paths demo_index_collab ?w1 (dir demo_project) ''a.qmd'' =
      Inr (Some (Truthy demo_index))"
    by (rule iffD2[OF conjunct1[OF t1]]) (simp add: demo_index_defs)
  have i1: "inputTargetIndex demo_paths demo_index_collab demo_project ''a.qmd'' ?w1 =
      (Inr (Some demo_index), ?w1)"
    using conjunct2[OF t1] r1 by (simp add: demo_index_defs)
  have r2: "\<forall>t. readInputTargetIndex demo_paths demo_index_collab ?w2 (dir demo_project) ''a.qmd''
      \<noteq> Inr (Some (Truthy t))"
    using cache_entry_reused_iff_fresh_and_parsable
      [of demo_paths demo_index_collab ?w2 demo_project "''a.qmd''"]
    by (simp add: demo_index_defs)
  have i2: "inputTargetIndex demo_paths demo_index_collab demo_project ''a.qmd'' ?w2 =
      indexInput demo_paths demo_index_collab demo_project ''a.qmd'' demo_engine ?w2"
    using conjunct2[OF cache_entry_reused_iff_fresh_and_parsable
      [of demo_paths demo_index_collab ?w2 demo_project "''a.qmd''" Falsy]] r2
    by (simp add: demo_index_defs)
  from r1 i1 r2 i2 show ?thesis by blast
qed

text \<open>
  Claim C1 as stated fails: here the cache file exists with modification time 100, the
  input file has 50 and the configuration file 40, so the stated condition holds, but
  the cache file holds \<^verbatim>\<open>{\<close>, which does not parse, and no entry is returned.
\<close>

theorem cache_reuse_counterexample:
  "map_option mtime (entries (demo_iworld (Some 50) (cacheFile (Some 100) ''{'') (Some (Some 40)))
       (inputTargetIndexFile demo_paths demo_index_collab ''/p'' ''a.qmd'')) = Some (Some 100) \<and>
   map_option mtime (entries (demo_iworld (Some 50) (cacheFile (Some 100) ''{'') (Some (Some 40)))
       (join demo_paths ''/p'' ''a.qmd'')) = Some (Some 50) \<and>
   projectConfigFile demo_paths (demo_iworld (Some 50) (cacheFile (Some 100) ''{'') (Some (Some 40)))
       ''/p'' = Some ''/p/_quarto.yml'' \<and>
   map_option mtime (entries (demo_iworld (Some 50) (cacheFile (Some 100) ''{'') (Some (Some 40)))
       ''/p/_quarto.yml'') = Some (Some 40) \<and>
   readInputTargetIndex demo_paths demo_index_collab
       (demo_iworld (Some 50) (cacheFile (Some 100) ''{'') (Some (Some 40))) ''/p'' ''a.qmd'' = Inr None"
  by (simp add: demo_index_defs readInputTargetIndex_def Let_def statSync_def mtimeOf_def js_ge_def
      parseIndexFile_def readTextFileSync_def)


lemma indexInput_error:
  assumes "indexInput P c project inp engine w = (Inl e, w')"
  shows "renderFormats c (join P (dir project) inp) ''all'' project w = (Inl e, w') \<or>
     (\<exists>fmts w1. renderFormats c (join P (dir project) inp) ''all'' project w = (Inr fmts, w1) \<and>
        (partitionedMarkdown engine (join P (dir project) inp) w1 = (Inl e, w') \<or>
         (\<exists>md d. partitionedMarkdown engine (join P (dir project) inp) w1 = (Inr md, w') \<and>
            entries w' (inputTargetIndexFile P c (dir project) inp) = Some d \<and> isDirectory d \<and>
            e = IsADirectory (inputTargetIndexFile P c (dir project) inp))))"
  using assms
  by (auto simp: indexInput_def Let_def writeTextFileSync_def
      split: prod.splits sum.splits option.splits if_splits)

lemma withFile_withoutFile [simp]: "withFile (withoutFile w p) p s = withFile w p s"
  by (simp add: withFile_def withoutFile_def)

lemma indexInput_readonly:
  assumes "renderFormats c (join P (dir project) inp) ''all'' project w = (r, w)"
    and "partitionedMarkdown engine (join P (dir project) inp) w = (m, w)"
    and "\<forall>d. entries w (inputTargetIndexFile P c (dir project) inp) = Some d \<longrightarrow> \<not> isDirectory d"
  shows "indexInput P c project inp engine w =
     (case r of
        Inl e \<Rightarrow> (Inl e, w)
      | Inr fmts \<Rightarrow>
     (case m of
        Inl e \<Rightarrow> (Inl e, w)
      | Inr md \<Rightarrow>
          (let firstTitle = (case fmts of [] \<Rightarrow> None | (k, f) # rest \<Rightarrow> metadata_title f);
               index0 = \<lparr>title = firstTitle, markdown = md, formats = fmts\<rparr>;
               index = (if \<not> truthyStr (title index0)
                        then index0\<lparr>title := headingText (markdown index0)\<rparr> else index0)
           in (Inr (Some index),
               withFile w (inputTargetIndexFile P c (dir project) inp) (JSON_stringify c index)))))"
  using assms
  by (auto simp: indexInput_def Let_def writeTextFileSync_def withFile_def
      split: prod.splits sum.splits option.splits if_splits)

text \<open>
  Claim C7. Take an input that exists, is not a directory and is claimed by an engine,
  and a cache file (a regular file, other than the input file) whose contents do not
  deserialize. The lookup in this world \<open>w\<close> behaves as in the world without the cache
  file: in both \<^verbatim>\<open>readInputTargetIndex\<close> returns \<^verbatim>\<open>undefined\<close> without throwing and
  \<^verbatim>\<open>inputTargetIndex\<close> is the regeneration path. No error comes from the corrupt cache
  file: when \<^verbatim>\<open>inputTargetIndex\<close> throws, format resolution threw that error, or the engine
  did, or the engine left a directory where the cache file is to be written. And when
  format resolution and the engine read the file system without changing it and give
  the same in both worlds, the caller gets the same outcome in both worlds, an error
  only when one of the two threw it, and otherwise the regenerated entry, with both
  worlds ending as the one world in which that entry is written to the cache file.
\<close>

theorem corrupt_cache_treated_as_missing:
  assumes "entries w (join P (dir project) inp) = Some st" and "\<not> isDirectory st"
    and "fileExecutionEngine c (join P (dir project) inp) = Some engine"
    and "entries w (inputTargetIndexFile P c (dir project) inp) = Some i"
    and "\<not> isDirectory i" and "JSON_parse c (contents i) = None"
    and "inputTargetIndexFile P c (dir project) inp \<noteq> join P (dir project) inp"
  shows "readInputTargetIndex P c w (dir project) inp = Inr None \<and>
     readInputTargetIndex P c (withoutFile w (inputTargetIndexFile P c (dir project) inp))
       (dir project) inp = Inr None \<and>
     inputTargetIndex P c project inp w = indexInput P c project inp engine w \<and>
     inputTargetIndex P c project inp (withoutFile w (inputTargetIndexFile P c (dir project) inp)) =
       indexInput P c project inp engine
         (withoutFile w (inputTargetIndexFile P c (dir project) inp)) \<and>
     (\<forall>e w'. inputTargetIndex P c project inp w = (Inl e, w') \<longrightarrow>
        renderFormats c (join P (dir project) inp) ''all'' project w = (Inl e, w') \<or>
        (\<exists>fmts w1. renderFormats c (join P (dir project) inp) ''all'' project w = (Inr fmts, w1) \<and>
           (partitionedMarkdown engine (join P (dir project) inp) w1 = (Inl e, w') \<or>
            (\<exists>md d. partitionedMarkdown engine (join P (dir project) inp) w1 = (Inr md, w') \<and>
               entries w' (inputTargetIndexFile P c (dir project) inp) = Some d \<and>
               isDirectory d \<and> e = IsADirectory (inputTargetIndexFile P c (dir project) inp))))) \<and>
     (\<forall>r m.
        renderFormats c (join P (dir project) inp) ''all'' project w = (r, w) \<and>
        renderFormats c (join P (dir project) inp) ''all'' project
          (withoutFile w (inputTargetIndexFile P c (dir project) inp)) =
          (r, withoutFile w (inputTargetIndexFile P c (dir project) inp)) \<and>
        partitionedMarkdown engine (join P (dir project) inp) w = (m, w) \<and>
        partitionedMarkdown engine (join P (dir project) inp)
          (withoutFile w (inputTargetIndexFile P c (dir project) inp)) =
          (m, withoutFile w (inputTargetIndexFile P c (dir project) inp)) \<longrightarrow>
        fst (inputTargetIndex P c project inp w) =
          fst (inputTargetIndex P c project inp
                 (withoutFile w (inputTargetIndexFile P c (dir project) inp))) \<and>
        (\<forall>e. fst (inputTargetIndex P c project inp w) = Inl e \<longrightarrow> r = Inl e \<or> m = Inl e) \<and>
        (\<forall>fmts md. r = Inr fmts \<and> m = Inr md \<longrightarrow>
           (\<exists>index.
              inputTargetIndex P c project inp w =
                (Inr (Some index),
                 withFile w (inputTargetIndexFile P c (dir project) inp) (JSON_stringify c index)) \<and>
              inputTargetIndex P c project inp
                  (withoutFile w (inputTargetIndexFile P c (dir project) inp)) =
                (Inr (Some index),
                 withFile w (inputTargetIndexFile P c (dir project) inp)
                   (JSON_stringify c index)))))"
proof -
  let ?cf = "inputTargetIndexFile P c (dir project) inp"
  let ?wm = "withoutFile w ?cf"
  have unparsable: "parseIndexFile c w ?cf = None"
    using assms(4,6) by (auto simp: parseIndexFile_def readTextFileSync_def)
  have r1: "readInputTargetIndex P c w (dir project) inp = Inr None"
    using readInputTargetIndex_present[OF assms(4) assms(1)] unparsable by simp
  have gone: "entries ?wm ?cf = None" by (simp add: withoutFile_def)
  have still: "entries ?wm (join P (dir project) inp) = Some st"
    using assms(1,7) by (simp add: withoutFile_def)
  have r2: "readInputTargetIndex P c ?wm (dir project) inp = Inr None"
    using gone by (rule readInputTargetIndex_missing)
  have i1: "inputTargetIndex P c project inp w = indexInput P c project inp engine w"
    using assms(1-3) r1 by (intro inputTargetIndex_regenerates) auto
  have i2: "inputTargetIndex P c project inp ?wm = indexInput P c project inp engine ?wm"
    using still assms(2,3) r2 by (intro inputTargetIndex_regenerates) auto
  have err: "\<forall>e w'. inputTargetIndex P c project inp w = (Inl e, w') \<longrightarrow>
        renderFormats c (join P (dir project) inp) ''all'' project w = (Inl e, w') \<or>
        (\<exists>fmts w1. renderFormats c (join P (dir project) inp) ''all'' project w = (Inr fmts, w1) \<and>
           (partitionedMarkdown engine (join P (dir project) inp) w1 = (Inl e, w') \<or>
            (\<exists>md d. partitionedMarkdown engine (join P (dir project) inp) w1 = (Inr md, w') \<and>
               entries w' ?cf = Some d \<and> isDirectory d \<and> e = IsADirectory ?cf)))"
    unfolding i1 using indexInput_error by blast
  have same: "fst (inputTargetIndex P c project inp w) = fst (inputTargetIndex P c project inp ?wm) \<and>
        (\<forall>e. fst (inputTargetIndex P c project inp w) = Inl e \<longrightarrow> r = Inl e \<or> m = Inl e) \<and>
        (\<forall>fmts md. r = Inr fmts \<and> m = Inr md \<longrightarrow>
           (\<exists>index.
              inputTargetIndex P c project inp w =
                (Inr (Some index), withFile w ?cf (JSON_stringify c index)) \<and>
              inputTargetIndex P c project inp ?wm =
                (Inr (Some index), withFile w ?cf (JSON_stringify c index))))"
    if f: "renderFormats c (join P (dir project) inp) ''all'' project w = (r, w)"
      "renderFormats c (join P (dir project) inp) ''all'' project ?wm = (r, ?wm)"
    and p: "partitionedMarkdown engine (join P (dir project) inp) w = (m, w)"
      "partitionedMarkdown engine (join P (dir project) inp) ?wm = (m, ?wm)"
    for r m
  proof -
    have a: "\<forall>d. entries w ?cf = Some d \<longrightarrow> \<not> isDirectory d" using assms(4,5) by simp
    have b: "\<forall>d. entries ?wm ?cf = Some d \<longrightarrow> \<not> isDirectory d" using gone by simp
    note ew = indexInput_readonly[OF f(1) p(1) a]
    note em = indexInput_readonly[OF f(2) p(2) b]
    show ?thesis
      unfolding i1 i2 ew em
      by (cases r; cases m) (simp_all add: Let_def)
  qed
  from r1 r2 i1 i2 err same show ?thesis by blast
qed

text \<open>A cache file holding \<^verbatim>\<open>{\<close>, and the same world without the cache file: the same
  entry is returned and the same world is left, with the entry in the cache file.\<close>

theorem corrupt_cache_treated_as_missing_witness:
  "readInputTargetIndex demo_paths demo_index_collab
       (demo_iworld (Some 50) (cacheFile (Some 100) ''{'') None) (dir demo_project) ''a.qmd'' =
     Inr None \<and>
   inputTargetIndex demo_paths demo_index_collab demo_project ''a.qmd''
       (demo_iworld (Some 50) (cacheFile (Some 100) ''{'') None) =
     (Inr (Some demo_index),
      withFile (demo_iworld (Some 50) (cacheFile (Some 100) ''{'') None)
        ''/p/.quarto/index/a.qmd.json'' ''index'') \<and>
   inputTargetIndex demo_paths demo_index_collab demo_project ''a.qmd''
       (withoutFile (demo_iworld (Some 50) (cacheFile (Some 100) ''{'') None)
          ''/p/.quarto/index/a.qmd.json'') =
     (Inr (Some demo_index),
      withFile (demo_iworld (Some 50) (cacheFile (Some 100) ''{'') None)
        ''/p/.quarto/index/a.qmd.json'' ''index'')"
proof -
  let ?w = "demo_iworld (Some 50) (cacheFile (Some 100) ''{'') None"
  let ?fmts = "[(''html'', \<lparr>metadata_title = None, execute_keep_md = False\<rparr>)]"
  let ?md = "\<lparr>headingText = Some ''Intro'', markdown_body = ''text''\<rparr>"
  have cf: "inputTargetIndexFile demo_paths demo_index_collab (dir demo_project) ''a.qmd'' =
      ''/p/.quarto/index/a.qmd.json''"
    and inp: "join demo_paths (dir demo_project) ''a.qmd'' = ''/p/a.qmd''"
    by (simp_all add: demo_index_defs)
  have t: "readInputTargetIndex demo_paths demo_index_collab ?w (dir demo_project) ''a.qmd'' =
        Inr None \<and>
      (\<exists>index.
         inputTargetIndex demo_paths demo_index_collab demo_project ''a.qmd'' ?w =
           (Inr (Some index),
            withFile ?w ''/p/.quarto/index/a.qmd.json'' (JSON_stringify demo_index_collab index)) \<and>
         inputTargetIndex demo_paths demo_index_collab demo_project ''a.qmd''
             (withoutFile ?w ''/p/.quarto/index/a.qmd.json'') =
           (Inr (Some index),
            withFile ?w ''/p/.quarto/index/a.qmd.json'' (JSON_stringify demo_index_collab index)))"
    using corrupt_cache_treated_as_missing
      [of ?w demo_paths demo_project "''a.qmd''"
        "\<lparr>isDirectory = False, mtime = Some 50, contents = ''# Intro''\<rparr>"
        demo_index_collab demo_engine
        "\<lparr>isDirectory = False, mtime = Some 100, contents = ''{''\<rparr>",
        unfolded cf inp, THEN conjunct2, THEN conjunct2, THEN conjunct2, THEN conjunct2,
        THEN conjunct2, THEN spec, THEN spec, of "Inr ?fmts" "Inr ?md"]
      corrupt_cache_treated_as_missing
      [of ?w demo_paths demo_project "''a.qmd''"
        "\<lparr>isDirectory = False, mtime = Some 50, contents = ''# Intro''\<rparr>"
        demo_index_collab demo_engine
        "\<lparr>isDirectory = False, mtime = Some 100, contents = ''{''\<rparr>",
        unfolded cf inp, THEN conjunct1]
    by (simp add: demo_iworld_def cacheFile_def demo_index_collab_def demo_engine_def
        demo_project_def withoutFile_def)
  have j: "JSON_stringify demo_index_collab x = ''index''" for x
    by (simp add: demo_index_collab_def)
  from t obtain index where
    a: "inputTargetIndex demo_paths demo_index_collab demo_project ''a.qmd'' ?w =
           (Inr (Some index), withFile ?w ''/p/.quarto/index/a.qmd.json'' ''index'')" and
    b: "inputTargetIndex demo_paths demo_index_collab demo_project ''a.qmd''
             (withoutFile ?w ''/p/.quarto/index/a.qmd.json'') =
           (Inr (Some index), withFile ?w ''/p/.quarto/index/a.qmd.json'' ''index'')"
    unfolding j by blast
  have "fst (inputTargetIndex demo_paths demo_index_collab demo_project ''a.qmd'' ?w) =
      Inr (Some demo_index)"
    by (simp add: inputTargetIndex_def indexInput_def Let_def demo_index_defs demo_engine_def
        demo_index_def writeTextFileSync_def truthyStr_def statSync_def readInputTargetIndex_def
        mtimeOf_def js_ge_def parseIndexFile_def readTextFileSync_def)
  with a have "index = demo_index" by simp
  with t a b show ?thesis by simp
qed

text \<open>
  Claim C10. A cache entry is returned only when the file system reports a modification
  time for the input file and for the cache file; when either is \<^verbatim>\<open>null\<close> (and both
  files exist) \<^verbatim>\<open>readInputTargetIndex\<close> returns \<^verbatim>\<open>undefined\<close>, which sends \<^verbatim>\<open>inputTargetIndex\<close>
  to regeneration. When the project configuration file exists and reports no
  modification time, the configuration clause is skipped: with a cache file not older
  than the input, the parsed contents of the cache file are returned.
\<close>

theorem reuse_needs_input_and_cache_mtime:
  "(readInputTargetIndex P c w projectDir inp = Inr (Some v) \<longrightarrow>
      (\<exists>indexStat inputStat a b.
         entries w (inputTargetIndexFile P c projectDir inp) = Some indexStat \<and>
         entries w (join P projectDir inp) = Some inputStat \<and>
         mtime inputStat = Some a \<and> mtime indexStat = Some b)) \<and>
   (\<forall>indexStat inputStat.
      entries w (inputTargetIndexFile P c projectDir inp) = Some indexStat \<and>
      entries w (join P projectDir inp) = Some inputStat \<and>
      (mtime inputStat = None \<or> mtime indexStat = None) \<longrightarrow>
      readInputTargetIndex P c w projectDir inp = Inr None) \<and>
   (\<forall>indexStat inputStat a b f cfgStat.
      entries w (inputTargetIndexFile P c projectDir inp) = Some indexStat \<and>
      entries w (join P projectDir inp) = Some inputStat \<and>
      mtime inputStat = Some a \<and> mtime indexStat = Some b \<and> a \<le> b \<and>
      projectConfigFile P w projectDir = Some f \<and> entries w f = Some cfgStat \<and>
      mtime cfgStat = None \<longrightarrow>
      readInputTargetIndex P c w projectDir inp =
        Inr (parseIndexFile c w (inputTargetIndexFile P c projectDir inp)))"
proof (intro conjI allI impI)
  assume "readInputTargetIndex P c w projectDir inp = Inr (Some v)"
  then show "\<exists>indexStat inputStat a b.
         entries w (inputTargetIndexFile P c projectDir inp) = Some indexStat \<and>
         entries w (join P projectDir inp) = Some inputStat \<and>
         mtime inputStat = Some a \<and> mtime indexStat = Some b"
    unfolding readInputTargetIndex_Some_iff by blast
next
  fix indexStat inputStat
  assume "entries w (inputTargetIndexFile P c projectDir inp) = Some indexStat \<and>
      entries w (join P projectDir inp) = Some inputStat \<and>
      (mtime inputStat = None \<or> mtime indexStat = None)"
  then show "readInputTargetIndex P c w projectDir inp = Inr None"
    by (auto simp: readInputTargetIndex_present)
next
  fix indexStat inputStat a b f cfgStat
  assume "entries w (inputTargetIndexFile P c projectDir inp) = Some indexStat \<and>
      entries w (join P projectDir inp) = Some inputStat \<and>
      mtime inputStat = Some a \<and> mtime indexStat = Some b \<and> a \<le> b \<and>
      projectConfigFile P w projectDir = Some f \<and> entries w f = Some cfgStat \<and>
      mtime cfgStat = None"
  then show "readInputTargetIndex P c w projectDir inp =
        Inr (parseIndexFile c w (inputTargetIndexFile P c projectDir inp))"
    by (auto simp: readInputTargetIndex_present)
qed

text \<open>No modification time for the input, none for the cache file (both stale), and
  none for the configuration file (reused).\<close>

theorem reuse_needs_input_and_cache_mtime_witness:
  "readInputTargetIndex demo_paths demo_index_collab
       (demo_iworld None (cacheFile (Some 100) ''index'') None) ''/p'' ''a.qmd'' = Inr None \<and>
   readInputTargetIndex demo_paths demo_index_collab
       (demo_iworld (Some 50) (cacheFile None ''index'') None) ''/p'' ''a.qmd'' = Inr None \<and>
   readInputTargetIndex demo_paths demo_index_collab
       (demo_iworld (Some 50) (cacheFile (Some 100) ''index'') (Some None)) ''/p'' ''a.qmd'' =
     Inr (Some (Truthy demo_index))"
proof -
  have a: "readInputTargetIndex demo_paths demo_index_collab
       (demo_iworld None (cacheFile (Some 100) ''index'') None) ''/p'' ''a.qmd'' = Inr None"
    using reuse_needs_input_and_cache_mtime[of demo_paths demo_index_collab
        "demo_iworld None (cacheFile (Some 100) ''index'') None" "''/p''" "''a.qmd''" Falsy]
    by (simp add: demo_index_defs)
  have b: "readInputTargetIndex demo_paths demo_index_collab
       (demo_iworld (Some 50) (cacheFile None ''index'') None) ''/p'' ''a.qmd'' = Inr None"
    using reuse_needs_input_and_cache_mtime[of demo_paths demo_index_collab
        "demo_iworld (Some 50) (cacheFile None ''index'') None" "''/p''" "''a.qmd''" Falsy]
    by (simp add: demo_index_defs)
  have c: "readInputTargetIndex demo_paths demo_index_collab
       (demo_iworld (Some 50) (cacheFile (Some 100) ''index'') (Some None)) ''/p'' ''a.qmd'' =
     Inr (Some (Truthy demo_index))"
    using reuse_needs_input_and_cache_mtime[of demo_paths demo_index_collab
        "demo_iworld (Some 50) (cacheFile (Some 100) ''index'') (Some None)" "''/p''" "''a.qmd''" Falsy]
    by (simp add: demo_index_defs parseIndexFile_def readTextFileSync_def)
  from a b c show ?thesis by blast
qed


section \<open>Properties of project rendering\<close>

subsection \<open>Computations and the file system\<close>

lemma bindE_Inr:
  "bindE m f w = (Inr x, w') \<longleftrightarrow> (\<exists>y w1. m w = (Inr y, w1) \<and> f y w1 = (Inr x, w'))"
  by (auto simp: bindE_def split: prod.splits sum.splits)

lemma bindE_Inl:
  "bindE m f w = (Inl e, w') \<longleftrightarrow>
     m w = (Inl e, w') \<or> (\<exists>y w1. m w = (Inr y, w1) \<and> f y w1 = (Inl e, w'))"
  by (auto simp: bindE_def split: prod.splits sum.splits)

lemma bindE_returnE [simp]: "bindE (returnE x) f w = f x w"
  by (simp add: bindE_def returnE_def)

lemma bindE_throwE [simp]: "bindE (throwE e) f w = (Inl e, w)"
  by (simp add: bindE_def throwE_def)

lemma under_refl [simp]: "under d d"
  by (simp add: under_def)

lemma under_append: "under d q \<longleftrightarrow> (\<exists>s. q = d @ s \<and> (s = [] \<or> hd s = CHR ''/''))"
  by (auto simp: under_def prefix_def) (metis append_Cons append_Nil hd_Cons_tl list.sel(1))

lemma under_rebase: "under src q \<Longrightarrow> under dst (rebase src dst q)"
  by (auto simp: under_append rebase_def)

lemma rebase_inverse: "under src q \<Longrightarrow> rebase dst src (rebase src dst q) = q"
  by (auto simp: under_append rebase_def)

lemma under_trans: "under a b \<Longrightarrow> under b c \<Longrightarrow> under a c"
  by (auto simp: under_def prefix_def)

lemma under_comparable:
  assumes "under a q" "under b q"
  shows "under a b \<or> under b a"
proof -
  obtain s where s: "q = a @ s" "s = [] \<or> hd s = CHR ''/''"
    using assms(1) by (auto simp: under_append)
  obtain r where r: "q = b @ r" "r = [] \<or> hd r = CHR ''/''"
    using assms(2) by (auto simp: under_append)
  from s(1) r(1) have "a @ s = b @ r" by simp
  then obtain u where "(a = b @ u \<and> u @ s = r) \<or> (a @ u = b \<and> s = u @ r)"
    by (auto simp: append_eq_append_conv2)
  then show ?thesis
  proof
    assume h: "a = b @ u \<and> u @ s = r"
    then have "u = [] \<or> hd u = CHR ''/''" using r(2) by (cases u) auto
    with h have "under b a" by (auto simp: under_append)
    then show ?thesis ..
  next
    assume h: "a @ u = b \<and> s = u @ r"
    then have "u = [] \<or> hd u = CHR ''/''" using s(2) by (cases u) auto
    with h have "under a b" by (auto simp: under_append)
    then show ?thesis ..
  qed
qed

lemma lookup_removeTree: "lookup (removeTree t p) q = (if under p q then None else lookup t q)"
  unfolding lookup_def removeTree_def by (induction t) auto

lemma lookup_append:
  "lookup (xs @ ys) q = (case lookup xs q of Some n \<Rightarrow> Some n | None \<Rightarrow> lookup ys q)"
  unfolding lookup_def by (induction xs) auto

lemma lookup_graft:
  "lookup (graft t src dst) q = (if under dst q then lookup t (rebase dst src q) else None)"
proof (induction t)
  case Nil
  show ?case by (simp add: lookup_def graft_def)
next
  case (Cons e t)
  obtain k n where e: "e = (k, n)" by (cases e)
  have step: "lookup (graft (e # t) src dst) q =
      (if under src k then (if rebase src dst k = q then Some n else lookup (graft t src dst) q)
       else lookup (graft t src dst) q)"
    by (simp add: e lookup_def graft_def)
  show ?case
  proof (cases "under src k")
    case False
    then have "under dst q \<Longrightarrow> rebase dst src q \<noteq> k"
      using under_rebase[of dst q src] by auto
    with False step Cons show ?thesis
      by (auto simp: e lookup_def)
  next
    case True
    show ?thesis
    proof (cases "rebase src dst k = q")
      case eq: True
      then have "under dst q" using under_rebase[OF True] by auto
      moreover have "rebase dst src q = k" using eq rebase_inverse[OF True] by auto
      ultimately show ?thesis using step True eq by (simp add: e lookup_def)
    next
      case ne: False
      have "under dst q \<Longrightarrow> rebase dst src q \<noteq> k"
        using ne rebase_inverse[of dst q src] by auto
      with step True ne Cons show ?thesis by (auto simp: e lookup_def)
    qed
  qed
qed


lemma ancestorsFrom_under: "a \<in> set (ancestorsFrom pre cs) \<Longrightarrow> under a (pre @ cs)"
proof (induction cs arbitrary: pre)
  case Nil
  then show ?case by simp
next
  case (Cons c cs)
  then show ?case
    by (auto simp: under_append split: if_splits) force
qed

lemma ancestors_under: "a \<in> set (ancestors d) \<Longrightarrow> under a d"
  using ancestorsFrom_under[of a "[]" d] by (simp add: ancestors_def)

lemma lookup_fold_mkdir:
  "lookup (fold (\<lambda>a t'. if lookup t' a = None then t' @ [(a, Dir)] else t') ds t) q =
     (case lookup t q of Some n \<Rightarrow> Some n | None \<Rightarrow> if q \<in> set ds then Some Dir else None)"
proof (induction ds arbitrary: t)
  case Nil
  show ?case by (simp split: option.splits)
next
  case (Cons d ds)
  have one: "lookup (if lookup t d = None then t @ [(d, Dir)] else t) q =
      (case lookup t q of Some n \<Rightarrow> Some n | None \<Rightarrow> if q = d then Some Dir else None)"
    by (auto simp: lookup_append split: option.splits) (simp_all add: lookup_def)
  show ?case
    by (simp add: Cons one split: option.splits)
qed

lemma lookup_mkdirs:
  "lookup (mkdirs t d) q =
     (case lookup t q of
        Some n \<Rightarrow> Some n
      | None \<Rightarrow> if q \<in> set (ancestors d) \<or> q = d then Some Dir else None)"
  unfolding mkdirs_def lookup_fold_mkdir by (auto split: option.splits)


lemma ensureDirSync_cases:
  assumes "ensureDirSync d w = (r, w')"
  obtains "r = Inr ()" "w' = w\<lparr>fs := mkdirs (fs w) d\<rparr>"
        | e where "r = Inl e" "w' = w"
  using assms by (auto simp: ensureDirSync_def returnE_def throwE_def split: option.splits)

lemma renameSync_cases:
  assumes "renameSync src dst w = (r, w')"
  obtains "r = Inr ()" "w' = w" "src = dst" "existsSync w src"
        | "r = Inr ()" "src \<noteq> dst" "\<not> under src dst" "\<not> under dst src" "existsSync w src"
            "w' = w\<lparr>fs := graft (fs w) src dst @ removeTree (removeTree (fs w) src) dst\<rparr>"
        | e where "r = Inl e" "w' = w"
  using assms
  by (auto simp: renameSync_def returnE_def throwE_def existsSync_def
      split: option.splits if_splits node.splits)

lemma copySync_cases:
  assumes "copySync src dst w = (r, w')"
  obtains "r = Inr ()" "src \<noteq> dst" "\<not> under src dst" "\<not> existsSync w dst" "existsSync w src"
            "w' = w\<lparr>fs := graft (fs w) src dst @ fs w\<rparr>"
        | e where "r = Inl e" "w' = w"
  using assms
  by (auto simp: copySync_def returnE_def throwE_def split: if_splits)


lemma relocateDir_cases:
  assumes "relocateDir P outAbs pd d copy w = (r, w')"
  obtains
    (skipped) "r = Inr ()" "w' = cleared w (join P outAbs d)"
      "\<not> existsSync (cleared w (join P outAbs d)) (join P pd d)"
  | (failed) e where "r = Inl e"
      "w' = cleared w (join P outAbs d) \<or>
       w' = (cleared w (join P outAbs d))\<lparr>fs :=
              mkdirs (fs (cleared w (join P outAbs d))) (dirname P (join P outAbs d))\<rparr>"
  | (same) "r = Inr ()" "join P pd d = join P outAbs d"
      "existsSync (cleared w (join P outAbs d)) (join P pd d)"
      "w' = (cleared w (join P outAbs d))\<lparr>fs :=
              mkdirs (fs (cleared w (join P outAbs d))) (dirname P (join P outAbs d))\<rparr>"
  | (placed) t where "r = Inr ()"
      "t = mkdirs (fs (cleared w (join P outAbs d))) (dirname P (join P outAbs d))"
      "existsSync (cleared w (join P outAbs d)) (join P pd d)"
      "\<not> under (join P pd d) (join P outAbs d)"
      "join P pd d \<noteq> join P outAbs d"
      "copy \<longrightarrow> lookup t (join P outAbs d) = None"
      "\<not> copy \<longrightarrow> \<not> under (join P outAbs d) (join P pd d)"
      "fs w' = graft t (join P pd d) (join P outAbs d) @
               (if copy then t else removeTree (removeTree t (join P pd d)) (join P outAbs d))"
proof -
  let ?tgt = "join P outAbs d" and ?src = "join P pd d"
  let ?w1 = "cleared w ?tgt"
  have first: "(\<lambda>w. if existsSync w ?tgt then removeSync ?tgt w else returnE () w) w = (Inr (), ?w1)"
    by (simp add: cleared_def removeSync_def returnE_def)
  show ?thesis
  proof (cases "existsSync ?w1 ?src")
    case False
    with assms first have "r = Inr ()" "w' = ?w1"
      by (auto simp: relocateDir_def Let_def bindE_def returnE_def)
    with False show ?thesis by (intro skipped) auto
  next
    case True
    with assms first have run: "bindE (ensureDirSync (dirname P ?tgt))
        (\<lambda>u. if copy then copySync ?src ?tgt else renameSync ?src ?tgt) ?w1 = (r, w')"
      by (auto simp: relocateDir_def Let_def bindE_def)
    obtain r1 w2 where e: "ensureDirSync (dirname P ?tgt) ?w1 = (r1, w2)"
      by (cases "ensureDirSync (dirname P ?tgt) ?w1")
    from e show ?thesis
    proof (cases rule: ensureDirSync_cases)
      case (2 e)
      with run e have "r = Inl e" "w' = ?w1" by (auto simp: bindE_def)
      then show ?thesis by (auto intro: failed)
    next
      case 1
      let ?t = "mkdirs (fs ?w1) (dirname P ?tgt)"
      from 1 run e have op: "(if copy then copySync ?src ?tgt w2 else renameSync ?src ?tgt w2) = (r, w')"
        by (auto simp: bindE_def)
      have w2: "fs w2 = ?t" using 1 by simp
      show ?thesis
      proof (cases copy)
        case True
        with op have "copySync ?src ?tgt w2 = (r, w')" by simp
        then show ?thesis
        proof (cases rule: copySync_cases)
          case 1
          then show ?thesis using True w2 \<open>existsSync ?w1 ?src\<close>
            by (intro placed[of ?t]) (auto simp: existsSync_def)
        next
          case (2 e)
          then show ?thesis using \<open>w2 = _\<close> by (auto intro: failed)
        qed
      next
        case False
        with op have "renameSync ?src ?tgt w2 = (r, w')" by simp
        then show ?thesis
        proof (cases rule: renameSync_cases)
          case 1
          then show ?thesis using \<open>existsSync ?w1 ?src\<close> \<open>w2 = _\<close> by (auto intro: same)
        next
          case 2
          then show ?thesis using False w2 \<open>existsSync ?w1 ?src\<close>
            by (intro placed[of ?t]) (auto simp: existsSync_def)
        next
          case (3 e)
          then show ?thesis using \<open>w2 = _\<close> by (auto intro: failed)
        qed
      qed
    qed
  qed
qed


lemma lookup_cleared:
  "lookup (fs (cleared w tgt)) q =
     (if existsSync w tgt \<and> under tgt q then None else lookup (fs w) q)"
  by (simp add: cleared_def lookup_removeTree)

lemma lookup_None_if_no_key: "list_all (\<lambda>(k, n). \<not> P k) t \<Longrightarrow> P q \<Longrightarrow> lookup t q = None"
  unfolding lookup_def by (induction t) auto

lemma treeAt_cleared:
  assumes "treeAt w tgt" "under tgt q"
  shows "lookup (fs (cleared w tgt)) q = None"
  using assms lookup_None_if_no_key[of "under tgt" "fs w" q]
  by (auto simp: lookup_cleared treeAt_def)

lemma under_antisym: "under a b \<Longrightarrow> under b a \<Longrightarrow> a = b"
  by (auto simp: under_def prefix_def)

lemma relocateDir_no_leftovers:
  assumes run: "relocateDir P outAbs pd d copy w = (Inr (), w')"
    and tree: "treeAt w (join P outAbs d)"
    and parent: "under (dirname P (join P outAbs d)) (join P outAbs d)"
      "dirname P (join P outAbs d) \<noteq> join P outAbs d"
    and q: "under (join P outAbs d) q" "lookup (fs w') q = Some n"
  shows "under (join P pd d) (rebase (join P outAbs d) (join P pd d) q) \<and>
         lookup (fs w) (rebase (join P outAbs d) (join P pd d) q) = Some n"
proof -
  let ?tgt = "join P outAbs d" and ?src = "join P pd d"
  let ?w1 = "cleared w ?tgt"
  have empty: "\<And>x. under ?tgt x \<Longrightarrow> lookup (fs ?w1) x = None"
    using tree by (rule treeAt_cleared)
  have created: "\<And>x. x \<in> set (ancestors (dirname P ?tgt)) \<or> x = dirname P ?tgt \<Longrightarrow>
      under x ?tgt \<and> x \<noteq> ?tgt"
  proof -
    fix x assume "x \<in> set (ancestors (dirname P ?tgt)) \<or> x = dirname P ?tgt"
    then have "under x (dirname P ?tgt)" using ancestors_under by auto
    then have a: "under x ?tgt" using parent(1) by (rule under_trans)
    have "x \<noteq> ?tgt"
    proof
      assume "x = ?tgt"
      with \<open>under x (dirname P ?tgt)\<close> parent(1) have "dirname P ?tgt = ?tgt"
        using under_antisym by blast
      with parent(2) show False by simp
    qed
    with a show "under x ?tgt \<and> x \<noteq> ?tgt" by simp
  qed
  have made: "\<And>x. under ?tgt x \<Longrightarrow>
      lookup (mkdirs (fs ?w1) (dirname P ?tgt)) x = None"
  proof -
    fix x assume x: "under ?tgt x"
    have "\<not> (x \<in> set (ancestors (dirname P ?tgt)) \<or> x = dirname P ?tgt)"
      using created x under_antisym by blast
    then show "lookup (mkdirs (fs ?w1) (dirname P ?tgt)) x = None"
      using empty[OF x] by (simp add: lookup_mkdirs)
  qed
  from run show ?thesis
  proof (cases rule: relocateDir_cases)
    case skipped
    with q empty show ?thesis by simp
  next
    case (failed e)
    then show ?thesis by simp
  next
    case same
    with q made show ?thesis by simp
  next
    case (placed t)
    let ?o = "rebase ?tgt ?src q"
    have o: "under ?src ?o" using q(1) by (rule under_rebase)
    have "lookup (fs w') q = lookup t ?o"
      using placed(8) q(1) made[OF q(1)] placed(2)
      by (auto simp: lookup_append lookup_graft lookup_removeTree split: option.splits)
    with q(2) have t: "lookup t ?o = Some n" by simp
    have notnew: "\<not> (?o \<in> set (ancestors (dirname P ?tgt)) \<or> ?o = dirname P ?tgt)"
    proof
      assume "?o \<in> set (ancestors (dirname P ?tgt)) \<or> ?o = dirname P ?tgt"
      then have "under ?o ?tgt" using created by blast
      with o have "under ?src ?tgt" by (rule under_trans)
      with placed(4) show False by simp
    qed
    have "lookup (fs ?w1) ?o = Some n"
      using t notnew unfolding placed(2) lookup_mkdirs by (auto split: option.splits)
    then have "lookup (fs w) ?o = Some n"
      by (auto simp: lookup_cleared split: if_splits)
    with o show ?thesis by simp
  qed
qed

lemma relocateDir_places:
  assumes run: "relocateDir P outAbs pd d copy w = (Inr (), w')"
    and src: "existsSync w (join P pd d)" "\<not> under (join P outAbs d) (join P pd d)"
    and q: "under (join P pd d) q" "lookup (fs w) q = Some n"
  shows "lookup (fs w') (rebase (join P pd d) (join P outAbs d) q) = Some n"
proof -
  let ?tgt = "join P outAbs d" and ?src = "join P pd d"
  let ?w1 = "cleared w ?tgt"
  have kept: "existsSync ?w1 ?src"
    using src by (simp add: existsSync_def lookup_cleared)
  from run show ?thesis
  proof (cases rule: relocateDir_cases)
    case skipped
    with kept show ?thesis by simp
  next
    case (failed e)
    then show ?thesis by simp
  next
    case same
    with src(2) show ?thesis by simp
  next
    case (placed t)
    have "\<not> under ?tgt q"
      using under_comparable[OF q(1), of ?tgt] placed(4) src(2) by blast
    then have "lookup (fs ?w1) q = Some n" using q(2) by (simp add: lookup_cleared)
    then have "lookup t q = Some n" by (simp add: placed(2) lookup_mkdirs)
    then show ?thesis
      using placed(8) under_rebase[OF q(1), of ?tgt] rebase_inverse[OF q(1), of ?tgt]
      by (simp add: lookup_append lookup_graft)
  qed
qed



subsection \<open>Relocation of directories and of the rendered file\<close>

lemma moveRenderedFile_moves:
  assumes run: "moveRenderedFile P outAbs pd renderedFile w = (Inr (), w')"
    and src: "existsSync w (join P pd (rf_file renderedFile))"
  shows "lookup (fs w') (join P outAbs (rf_file renderedFile)) =
           lookup (fs w) (join P pd (rf_file renderedFile)) \<and>
         (join P pd (rf_file renderedFile) \<noteq> join P outAbs (rf_file renderedFile) \<longrightarrow>
            lookup (fs w') (join P pd (rf_file renderedFile)) = None)"
proof -
  let ?src = "join P pd (rf_file renderedFile)" and ?dst = "join P outAbs (rf_file renderedFile)"
  from run obtain u w1 where
    e: "ensureDirSync (dirname P ?dst) w = (Inr u, w1)" and
    r: "renameSync ?src ?dst w1 = (Inr (), w')"
    by (auto simp: moveRenderedFile_def Let_def bindE_Inr)
  from e have w1: "fs w1 = mkdirs (fs w) (dirname P ?dst)"
    by (cases rule: ensureDirSync_cases) auto
  obtain n where n: "lookup (fs w) ?src = Some n"
    using src by (auto simp: existsSync_def)
  then have kept: "lookup (fs w1) ?src = Some n"
    by (simp add: w1 lookup_mkdirs)
  from r show ?thesis
  proof (cases rule: renameSync_cases)
    case 1
    with kept n show ?thesis by simp
  next
    case 2
    have "rebase ?dst ?src ?dst = ?src" by (simp add: rebase_def)
    with 2 kept n show ?thesis
      by (auto simp: lookup_append lookup_graft lookup_removeTree)
  next
    case (3 e)
    then show ?thesis by simp
  qed
qed

lemma moveRenderedFile_blocked:
  assumes src: "lookup (fs w) (join P pd (rf_file renderedFile)) = Some (File s)"
    and dst: "lookup (fs w) (join P outAbs (rf_file renderedFile)) = Some Dir"
  shows "(\<exists>e. fst (moveRenderedFile P outAbs pd renderedFile w) = Inl e) \<and>
         (\<forall>q n. lookup (fs w) q = Some n \<longrightarrow>
            lookup (fs (snd (moveRenderedFile P outAbs pd renderedFile w))) q = Some n)"
proof -
  let ?src = "join P pd (rf_file renderedFile)" and ?dst = "join P outAbs (rf_file renderedFile)"
  obtain r1 w1 where e: "ensureDirSync (dirname P ?dst) w = (r1, w1)"
    by (cases "ensureDirSync (dirname P ?dst) w")
  from e show ?thesis
  proof (cases rule: ensureDirSync_cases)
    case (2 e)
    with \<open>ensureDirSync (dirname P ?dst) w = (r1, w1)\<close> show ?thesis
      by (simp add: moveRenderedFile_def Let_def bindE_def)
  next
    case 1
    have kept: "\<And>q n. lookup (fs w) q = Some n \<Longrightarrow> lookup (fs w1) q = Some n"
      using 1 by (simp add: lookup_mkdirs)
    have ne: "?src \<noteq> ?dst" using src dst by auto
    have "\<exists>e. renameSync ?src ?dst w1 = (Inl e, w1)"
      using kept[OF src] kept[OF dst] ne by (simp add: renameSync_def throwE_def)
    with e 1 kept show ?thesis
      by (auto simp: moveRenderedFile_def Let_def bindE_def)
  qed
qed

text \<open>
  Claim C4, as amended. The directories \<^verbatim>\<open>relocateDir\<close> relocates (the supporting
  directories and the library directory) replace what is at the destination: after a
  relocation that did not throw, every entry under the target comes from the
  corresponding path under the source directory, so nothing of an earlier run is left
  (the file system being a tree at the target, and the parent of the target lying
  strictly above it); and every entry under an existing source directory is at the
  corresponding path under the target. The rendered file is moved by a plain rename
  after its parent directory is ensured: when that does not throw, the destination holds
  what the source held, an existing file there being replaced, and the source is gone.
  Nothing removes a directory at the destination of the rendered file: when the
  rendered file is a file and a directory is at its destination, the move throws and
  every entry of the file system, the directory and what it holds among them, is still
  there.
\<close>

theorem relocation_replaces_directories:
  "(relocateDir P outAbs pd d copy w = (Inr (), w') \<and> treeAt w (join P outAbs d) \<and>
    under (dirname P (join P outAbs d)) (join P outAbs d) \<and>
    dirname P (join P outAbs d) \<noteq> join P outAbs d \<longrightarrow>
      (\<forall>q n. under (join P outAbs d) q \<and> lookup (fs w') q = Some n \<longrightarrow>
         under (join P pd d) (rebase (join P outAbs d) (join P pd d) q) \<and>
         lookup (fs w) (rebase (join P outAbs d) (join P pd d) q) = Some n)) \<and>
   (relocateDir P outAbs pd d copy w = (Inr (), w') \<and> existsSync w (join P pd d) \<and>
    \<not> under (join P outAbs d) (join P pd d) \<longrightarrow>
      (\<forall>q n. under (join P pd d) q \<and> lookup (fs w) q = Some n \<longrightarrow>
         lookup (fs w') (rebase (join P pd d) (join P outAbs d) q) = Some n)) \<and>
   (moveRenderedFile P outAbs pd renderedFile w = (Inr (), v) \<and>
    existsSync w (join P pd (rf_file renderedFile)) \<longrightarrow>
      lookup (fs v) (join P outAbs (rf_file renderedFile)) =
        lookup (fs w) (join P pd (rf_file renderedFile)) \<and>
      (join P pd (rf_file renderedFile) \<noteq> join P outAbs (rf_file renderedFile) \<longrightarrow>
         lookup (fs v) (join P pd (rf_file renderedFile)) = None)) \<and>
   (lookup (fs w) (join P pd (rf_file renderedFile)) = Some (File s) \<and>
    lookup (fs w) (join P outAbs (rf_file renderedFile)) = Some Dir \<longrightarrow>
      (\<exists>e. fst (moveRenderedFile P outAbs pd renderedFile w) = Inl e) \<and>
      (\<forall>q n. lookup (fs w) q = Some n \<longrightarrow>
         lookup (fs (snd (moveRenderedFile P outAbs pd renderedFile w))) q = Some n))"
  using relocateDir_no_leftovers[of P outAbs pd d copy w w']
    relocateDir_places[of P outAbs pd d copy w w']
    moveRenderedFile_moves[of P outAbs pd renderedFile w v]
    moveRenderedFile_blocked[of w P pd renderedFile s outAbs]
  by blast

text \<open>On the demo project: the stale figure of the earlier run is gone from
  \<^verbatim>\<open>/p/o/a_files\<close>, the new figure is there, and the new page has replaced the old one;
  and where a directory is at the destination of the page, what it holds is still
  there after the move.\<close>

theorem relocation_replaces_directories_witness:
  "fst (relocateDir demo_paths ''/p/o'' ''/p'' ''a_files'' False (demo_world demo_fs None)) = Inr () \<and>
   lookup (fs (snd (relocateDir demo_paths ''/p/o'' ''/p'' ''a_files'' False
      (demo_world demo_fs None)))) ''/p/o/a_files/stale.png'' = None \<and>
   lookup (fs (snd (relocateDir demo_paths ''/p/o'' ''/p'' ''a_files'' False
      (demo_world demo_fs None)))) ''/p/o/a_files/fig.png'' = Some (File ''new figure'') \<and>
   fst (moveRenderedFile demo_paths ''/p/o'' ''/p'' demo_rendered (demo_world demo_fs None)) =
      Inr () \<and>
   lookup (fs (snd (moveRenderedFile demo_paths ''/p/o'' ''/p'' demo_rendered
      (demo_world demo_fs None)))) ''/p/o/a.html'' = Some (File ''new page'') \<and>
   lookup (fs (snd (moveRenderedFile demo_paths ''/p/o'' ''/p'' demo_rendered
      (demo_world demo_fs None)))) ''/p/a.html'' = None \<and>
   lookup (fs (snd (moveRenderedFile demo_paths ''/p/o'' ''/p'' demo_rendered
      (demo_world demo_fs_blocked None)))) ''/p/o/a.html/old.txt'' = Some (File ''old'')"
proof -
  define w where "w = demo_world demo_fs None"
  define w' where "w' = snd (relocateDir demo_paths ''/p/o'' ''/p'' ''a_files'' False w)"
  define v where "v = snd (moveRenderedFile demo_paths ''/p/o'' ''/p'' demo_rendered w)"
  have ok: "fst (relocateDir demo_paths ''/p/o'' ''/p'' ''a_files'' False w) = Inr ()"
    unfolding w_def by code_simp
  have okv: "fst (moveRenderedFile demo_paths ''/p/o'' ''/p'' demo_rendered w) = Inr ()"
    unfolding w_def by code_simp
  have run: "relocateDir demo_paths ''/p/o'' ''/p'' ''a_files'' False w = (Inr (), w')"
    using ok by (simp add: w'_def prod_eq_iff)
  have runv: "moveRenderedFile demo_paths ''/p/o'' ''/p'' demo_rendered w = (Inr (), v)"
    using okv by (simp add: v_def prod_eq_iff)
  have tgt: "join demo_paths ''/p/o'' ''a_files'' = ''/p/o/a_files''"
    and src: "join demo_paths ''/p'' ''a_files'' = ''/p/a_files''"
    and out: "join demo_paths ''/p/o'' (rf_file demo_rendered) = ''/p/o/a.html''"
    and inp: "join demo_paths ''/p'' (rf_file demo_rendered) = ''/p/a.html''"
    by (simp_all add: demo_paths_def demo_rendered_def)
  have tree: "treeAt w ''/p/o/a_files''" unfolding w_def by code_simp
  have parent: "under (dirname demo_paths ''/p/o/a_files'') ''/p/o/a_files''"
    "dirname demo_paths ''/p/o/a_files'' \<noteq> ''/p/o/a_files''"
    by code_simp+
  have there: "existsSync w ''/p/a_files''" "\<not> under ''/p/o/a_files'' ''/p/a_files''"
    "existsSync w ''/p/a.html''"
    unfolding w_def by code_simp+
  note t = relocation_replaces_directories
    [of demo_paths "''/p/o''" "''/p''" "''a_files''" False w w' demo_rendered v,
      unfolded tgt src out inp]
  have stale_origin: "lookup (fs w) (rebase ''/p/o/a_files'' ''/p/a_files'' ''/p/o/a_files/stale.png'')
      = None"
    unfolding w_def by code_simp
  have "under ''/p/o/a_files'' ''/p/o/a_files/stale.png''" by code_simp
  with t run tree parent stale_origin
  have stale: "lookup (fs w') ''/p/o/a_files/stale.png'' = None"
    by (cases "lookup (fs w') ''/p/o/a_files/stale.png''") auto
  have "under ''/p/a_files'' ''/p/a_files/fig.png''"
    "lookup (fs w) ''/p/a_files/fig.png'' = Some (File ''new figure'')"
    "rebase ''/p/a_files'' ''/p/o/a_files'' ''/p/a_files/fig.png'' = ''/p/o/a_files/fig.png''"
    unfolding w_def by code_simp+
  with t run there have fig: "lookup (fs w') ''/p/o/a_files/fig.png'' = Some (File ''new figure'')"
    by metis
  have "lookup (fs w) ''/p/a.html'' = Some (File ''new page'')" unfolding w_def by code_simp
  with t runv there have page: "lookup (fs v) ''/p/o/a.html'' = Some (File ''new page'')"
    "lookup (fs v) ''/p/a.html'' = None"
    by auto
  have "lookup (fs (demo_world demo_fs_blocked None)) ''/p/a.html'' = Some (File ''new page'')"
    "lookup (fs (demo_world demo_fs_blocked None)) ''/p/o/a.html'' = Some Dir"
    "lookup (fs (demo_world demo_fs_blocked None)) ''/p/o/a.html/old.txt'' = Some (File ''old'')"
    by code_simp+
  with relocation_replaces_directories
    [of demo_paths "''/p/o''" "''/p''" _ _ "demo_world demo_fs_blocked None" _ demo_rendered _
      "''new page''", unfolded out inp]
  have blocked: "lookup (fs (snd (moveRenderedFile demo_paths ''/p/o'' ''/p'' demo_rendered
      (demo_world demo_fs_blocked None)))) ''/p/o/a.html/old.txt'' = Some (File ''old'')"
    by blast
  from ok okv stale fig page blocked show ?thesis
    unfolding w'_def v_def w_def by simp
qed


text \<open>
  Claim C4 as stated fails for the rendered file: with a directory at \<^verbatim>\<open>/p/o/a.html\<close>,
  the destination of the rendered file \<^verbatim>\<open>a.html\<close>, the directory is not removed; the
  rename of the file onto the directory throws, \<^verbatim>\<open>renderProject\<close> throws, and the
  directory, its old content and the rendered file in the project are where they were.
\<close>

theorem rendered_file_onto_directory_counterexample:
  "lookup demo_fs_blocked ''/p/o/a.html'' = Some Dir \<and>
   fst (moveRenderedFile demo_paths ''/p/o'' ''/p'' demo_rendered (demo_world demo_fs_blocked None)) =
     Inl (IsADirectory ''/p/o/a.html'') \<and>
   fst (renderProject demo_paths demo_collab demo_context demo_options None
          (demo_world demo_fs_blocked None)) = Inl (IsADirectory ''/p/o/a.html'') \<and>
   lookup (fs (snd (renderProject demo_paths demo_collab demo_context demo_options None
          (demo_world demo_fs_blocked None)))) ''/p/o/a.html'' = Some Dir \<and>
   lookup (fs (snd (renderProject demo_paths demo_collab demo_context demo_options None
          (demo_world demo_fs_blocked None)))) ''/p/o/a.html/old.txt'' = Some (File ''old'') \<and>
   lookup (fs (snd (renderProject demo_paths demo_collab demo_context demo_options None
          (demo_world demo_fs_blocked None)))) ''/p/a.html'' = Some (File ''new page'')"
  by code_simp


subsection \<open>The library directory\<close>

















subsection \<open>The environment variable, the always-execute list and the incremental flag\<close>


lemma realPathSync_Inr: "realPathSync p w = (Inr q, w') \<Longrightarrow> q = p"
  by (auto simp: realPathSync_def returnE_def throwE_def split: if_splits)

lemma setup_facts:
  assumes "renderProject_setup P c pt context options files w = (Inr l, w1)"
  shows "projDir l = dir context"
    and "alwaysExecuteFiles l = (if incremental files \<and> \<not> useFreezer options then files else None)"
    and "outputDirAbsolute l =
           (if truthyStr (configOf context project_output_dir)
            then Some (join P (dir context) (the (configOf context project_output_dir))) else None)"
proof -
  from assms obtain pd w0 where rp: "realPathSync (dir context) w = (Inr pd, w0)"
    and l: "projDir l = pd"
      "alwaysExecuteFiles l = (if incremental files \<and> \<not> useFreezer options then files else None)"
      "outputDirAbsolute l =
         (if truthyStr (configOf context project_output_dir)
          then Some (join P pd (the (configOf context project_output_dir))) else None)"
    unfolding renderProject_setup_def Let_def bindE_Inr
    by (elim exE conjE) (auto simp: returnE_def)
  from rp have pd: "pd = dir context" by (rule realPathSync_Inr)
  from l pd show "projDir l = dir context"
    and "alwaysExecuteFiles l = (if incremental files \<and> \<not> useFreezer options then files else None)"
    and "outputDirAbsolute l =
           (if truthyStr (configOf context project_output_dir)
            then Some (join P (dir context) (the (configOf context project_output_dir))) else None)"
    by simp_all
qed

text \<open>
  Claim C8, as amended. A call of \<^verbatim>\<open>renderProject\<close> that throws before it reaches
  \<^verbatim>\<open>Deno.env.set\<close> (the project directory cannot be resolved, a render target does not
  exist, \<^verbatim>\<open>incrementalRenderAll\<close>, \<^verbatim>\<open>ensureGitignore\<close> or the pre-render hook throws, the
  output directory cannot be created) neither publishes nor clears \<^verbatim>\<open>QUARTO_PROJECT_DIR\<close>:
  it leaves the world as that part left it. Every other call sets the variable to the
  project directory, runs the render (\<^verbatim>\<open>renderFiles\<close>, relocation, the post-render hook)
  from there, and deletes the variable whether the render returned or threw: after such
  a call the variable is not set.
\<close>

theorem project_dir_published_during_render_and_cleared:
  "(renderProject_setup P c (projectType c (configOf context project_type)) context options files w
      = (Inl e, v) \<longrightarrow>
      renderProject P c context options files w = (Inl e, v)) \<and>
   (renderProject_setup P c (projectType c (configOf context project_type)) context options files w
      = (Inr l, v) \<longrightarrow>
      projDir l = dir context \<and>
      renderProject P c context options files w =
        (fst (renderProject_render P c (projectType c (configOf context project_type)) context
                files l (v\<lparr>env_QUARTO_PROJECT_DIR := Some (dir context)\<rparr>)),
         (snd (renderProject_render P c (projectType c (configOf context project_type)) context
                files l (v\<lparr>env_QUARTO_PROJECT_DIR := Some (dir context)\<rparr>)))
           \<lparr>env_QUARTO_PROJECT_DIR := None\<rparr>) \<and>
      env_QUARTO_PROJECT_DIR (snd (renderProject P c context options files w)) = None)"
proof (intro conjI impI)
  assume "renderProject_setup P c (projectType c (configOf context project_type)) context options
      files w = (Inl e, v)"
  then show "renderProject P c context options files w = (Inl e, v)"
    by (simp add: renderProject_def Let_def bindE_def)
next
  assume s: "renderProject_setup P c (projectType c (configOf context project_type)) context options
      files w = (Inr l, v)"
  then show pd: "projDir l = dir context" by (rule setup_facts)
  from s pd show eq: "renderProject P c context options files w =
        (fst (renderProject_render P c (projectType c (configOf context project_type)) context
                files l (v\<lparr>env_QUARTO_PROJECT_DIR := Some (dir context)\<rparr>)),
         (snd (renderProject_render P c (projectType c (configOf context project_type)) context
                files l (v\<lparr>env_QUARTO_PROJECT_DIR := Some (dir context)\<rparr>)))
           \<lparr>env_QUARTO_PROJECT_DIR := None\<rparr>)"
    by (simp add: renderProject_def Let_def bindE_def setProjectDir_def returnE_def
        tryFinally_def deleteProjectDir_def split: prod.splits)
  then show "env_QUARTO_PROJECT_DIR (snd (renderProject P c context options files w)) = None"
    by simp
qed

text \<open>The functions of \<^verbatim>\<open>renderProject\<close> use the renderer and the project type
  registry only where the source calls them.\<close>

lemma resourceFilesOf_renderFiles [simp]:
  "resourceFilesOf P (c\<lparr>renderFiles := X\<rparr>) = resourceFilesOf P c"
  by (intro ext) (simp add: resourceFilesOf_def Let_def)

lemma resourceFilesOf_projectType [simp]:
  "resourceFilesOf P (c\<lparr>projectType := X\<rparr>) = resourceFilesOf P c"
  by (intro ext) (simp add: resourceFilesOf_def Let_def)

lemma relocateRenderedFile_renderFiles [simp]:
  "relocateRenderedFile P (c\<lparr>renderFiles := X\<rparr>) = relocateRenderedFile P c"
  by (intro ext) (simp add: relocateRenderedFile_def Let_def)

lemma relocateRenderedFile_projectType [simp]:
  "relocateRenderedFile P (c\<lparr>projectType := X\<rparr>) = relocateRenderedFile P c"
  by (intro ext) (simp add: relocateRenderedFile_def Let_def)

lemma freezeLibDir_renderFiles [simp]:
  "freezeLibDir (c\<lparr>renderFiles := X\<rparr>) = freezeLibDir c"
  by (intro ext) (simp add: freezeLibDir_def)

lemma freezeLibDir_projectType [simp]:
  "freezeLibDir (c\<lparr>projectType := X\<rparr>) = freezeLibDir c"
  by (intro ext) (simp add: freezeLibDir_def)

lemma relocateLibDir_renderFiles [simp]:
  "relocateLibDir P (c\<lparr>renderFiles := X\<rparr>) = relocateLibDir P c"
  by (intro ext) (simp add: relocateLibDir_def Let_def cong: if_cong)

lemma relocateLibDir_projectType [simp]:
  "relocateLibDir P (c\<lparr>projectType := X\<rparr>) = relocateLibDir P c"
  by (intro ext) (simp add: relocateLibDir_def Let_def cong: if_cong)

lemma relocateLibDir_postRender [simp]:
  "relocateLibDir P c (pt\<lparr>postRender := X\<rparr>) = relocateLibDir P c pt"
  by (intro ext) (simp add: relocateLibDir_def Let_def cong: if_cong)

lemma relocateOutputs_renderFiles [simp]:
  "relocateOutputs P (c\<lparr>renderFiles := X\<rparr>) = relocateOutputs P c"
  by (intro ext) (simp add: relocateOutputs_def Let_def)

lemma relocateOutputs_projectType [simp]:
  "relocateOutputs P (c\<lparr>projectType := X\<rparr>) = relocateOutputs P c"
  by (intro ext) (simp add: relocateOutputs_def Let_def)

lemma relocateOutputs_postRender [simp]:
  "relocateOutputs P c (pt\<lparr>postRender := X\<rparr>) = relocateOutputs P c pt"
  by (intro ext) (simp add: relocateOutputs_def Let_def)


lemma setup_projectType [simp]:
  "renderProject_setup P (c\<lparr>projectType := X\<rparr>) = renderProject_setup P c"
  by (intro ext) (simp add: renderProject_setup_def Let_def)

lemma setup_postRender [simp]:
  "renderProject_setup P c (pt\<lparr>postRender := X\<rparr>) = renderProject_setup P c pt"
  by (intro ext) (simp add: renderProject_setup_def Let_def)


text \<open>
  Claim C2, as amended. The render is incremental if and only if the caller passed a
  list of files, whatever the list holds; and that is the flag the post-render hook
  gets: the call is indistinguishable from one whose post-render hook is handed
  \<open>files \<noteq> None\<close>.
\<close>

theorem incremental_iff_files_given:
  "(incremental files \<longleftrightarrow> files \<noteq> None) \<and>
   renderProject P (withPostRenderFlag (files \<noteq> None) c) context options files w =
     renderProject P c context options files w"
proof
  show "incremental files \<longleftrightarrow> files \<noteq> None" by (simp add: incremental_def)
  have body: "renderProject_render P (c\<lparr>projectType := X\<rparr>)
         (pt\<lparr>postRender := map_option (\<lambda>post ctx inc. post ctx (files \<noteq> None)) (postRender pt)\<rparr>)
         context files l =
        renderProject_render P c pt context files l" for X pt l
    unfolding renderProject_render_def
    by (cases "postRender pt"; cases "outputDirAbsolute l") (simp_all add: incremental_def)
  have sel: "projectType (c\<lparr>projectType := F\<rparr>) = F" for F
    by simp
  show "renderProject P (withPostRenderFlag (files \<noteq> None) c) context options files w =
     renderProject P c context options files w"
    unfolding renderProject_def withPostRenderFlag_def Let_def
    by (simp only: sel setup_projectType setup_postRender body)
qed


subsection \<open>The demo project rendered\<close>

text \<open>On the demo project: a call for a target that does not exist throws and leaves the
  world as it was; a full render that found the variable set to \<^verbatim>\<open>/elsewhere\<close> has the
  renderer see \<^verbatim>\<open>/p\<close> and leaves the variable unset.\<close>

theorem project_dir_published_during_render_and_cleared_witness:
  "fst (renderProject demo_paths demo_collab demo_context demo_options (Some [''missing.qmd''])
          (demo_world demo_fs None)) =
     Inl (Failure ''Render target does not exist: missing.qmd'') \<and>
   snd (renderProject demo_paths demo_collab demo_context demo_options (Some [''missing.qmd''])
          (demo_world demo_fs None)) = demo_world demo_fs None \<and>
   env_QUARTO_PROJECT_DIR (snd (renderProject demo_paths demo_collab demo_context demo_options
          None (demo_world demo_fs (Some ''/elsewhere'')))) = None \<and>
   hd (warnings (snd (renderProject demo_paths demo_collab demo_context demo_options
          None (demo_world demo_fs (Some ''/elsewhere''))))) = ''QUARTO_PROJECT_DIR=/p''"
proof -
  let ?pt = "projectType demo_collab (configOf demo_context project_type)"
  let ?w = "demo_world demo_fs None" and ?v = "demo_world demo_fs (Some ''/elsewhere'')"
  let ?early = "renderProject_setup demo_paths demo_collab ?pt demo_context demo_options
      (Some [''missing.qmd'']) ?w"
  let ?late = "renderProject_setup demo_paths demo_collab ?pt demo_context demo_options None ?v"
  have "fst ?early = Inl (Failure ''Render target does not exist: missing.qmd'')"
    and "snd ?early = ?w"
    by code_simp+
  then have early: "?early = (Inl (Failure ''Render target does not exist: missing.qmd''), ?w)"
    by (simp add: prod_eq_iff)
  have thrown: "renderProject demo_paths demo_collab demo_context demo_options
      (Some [''missing.qmd'']) ?w =
      (Inl (Failure ''Render target does not exist: missing.qmd''), ?w)"
    using project_dir_published_during_render_and_cleared
      [of demo_paths demo_collab demo_context demo_options "Some [''missing.qmd'']" ?w
        "Failure ''Render target does not exist: missing.qmd''" ?w]
      early
    by blast
  have "case fst ?late of Inl e \<Rightarrow> False | Inr l \<Rightarrow> True"
    by code_simp
  then obtain l where "fst ?late = Inr l" by (cases "fst ?late") auto
  then have late: "?late = (Inr l, snd ?late)" by (simp add: prod_eq_iff)
  have cleared: "env_QUARTO_PROJECT_DIR (snd (renderProject demo_paths demo_collab demo_context
      demo_options None ?v)) = None"
    using project_dir_published_during_render_and_cleared
      [of demo_paths demo_collab demo_context demo_options None ?v _ "snd ?late" l]
      late
    by blast
  have seen: "hd (warnings (snd (renderProject demo_paths demo_collab demo_context demo_options
      None ?v))) = ''QUARTO_PROJECT_DIR=/p''"
    by code_simp
  from thrown cleared seen show ?thesis by simp
qed

text \<open>
  Claim C8 as stated fails: the call below throws (the render target does not exist)
  before \<^verbatim>\<open>Deno.env.set\<close> and the \<^verbatim>\<open>try\<close> block are reached, and the variable, which was
  set when the call began, is still set after it.
\<close>

theorem project_dir_left_set_counterexample:
  "env_QUARTO_PROJECT_DIR (demo_world demo_fs (Some ''/elsewhere'')) = Some ''/elsewhere'' \<and>
   fst (renderProject demo_paths demo_collab demo_context demo_options (Some [''missing.qmd''])
          (demo_world demo_fs (Some ''/elsewhere''))) =
     Inl (Failure ''Render target does not exist: missing.qmd'') \<and>
   env_QUARTO_PROJECT_DIR (snd (renderProject demo_paths demo_collab demo_context demo_options
          (Some [''missing.qmd'']) (demo_world demo_fs (Some ''/elsewhere'')))) = Some ''/elsewhere''"
  by code_simp


text \<open>A request for one file is incremental, a call without a list is not.\<close>

theorem incremental_iff_files_given_witness:
  "incremental (Some [''a.qmd'']) \<and> \<not> incremental None \<and>
   renderProject demo_paths (withPostRenderFlag True demo_collab) demo_context demo_options
       (Some [''a.qmd'']) (demo_world demo_fs None) =
   renderProject demo_paths demo_collab demo_context demo_options
       (Some [''a.qmd'']) (demo_world demo_fs None) \<and>
   renderProject demo_paths (withPostRenderFlag False demo_collab) demo_context demo_options
       None (demo_world demo_fs None) =
   renderProject demo_paths demo_collab demo_context demo_options
       None (demo_world demo_fs None)"
  using incremental_iff_files_given
      [of "Some [''a.qmd'']" demo_paths demo_collab demo_context demo_options
        "demo_world demo_fs None"]
    incremental_iff_files_given
      [of None demo_paths demo_collab demo_context demo_options "demo_world demo_fs None"]
  by simp

text \<open>
  Claim C2 as stated fails: the request below is the full input set of the project, not
  a proper subset of it, and the render is incremental all the same: the post-render
  hook is told so, where the call without a list, which renders the same files, is a
  full render.
\<close>

theorem incremental_full_input_set_counterexample:
  "Some (files_input demo_context) = Some [''/p/a.qmd'', ''/p/b.qmd''] \<and>
   \<not> set [''/p/a.qmd'', ''/p/b.qmd''] \<subset> set (files_input demo_context) \<and>
   incremental (Some [''/p/a.qmd'', ''/p/b.qmd'']) \<and>
   fst (renderProject demo_paths demo_collab demo_context demo_options
          (Some [''/p/a.qmd'', ''/p/b.qmd'']) (demo_world demo_fs None)) =
     fst (renderProject demo_paths demo_collab demo_context demo_options
          None (demo_world demo_fs None)) \<and>
   last (warnings (snd (renderProject demo_paths demo_collab demo_context demo_options
          (Some [''/p/a.qmd'', ''/p/b.qmd'']) (demo_world demo_fs None)))) =
     ''post-render: incremental'' \<and>
   last (warnings (snd (renderProject demo_paths demo_collab demo_context demo_options
          None (demo_world demo_fs None)))) = ''post-render: full''"
proof -
  have "Some (files_input demo_context) = Some [''/p/a.qmd'', ''/p/b.qmd'']"
    and "\<not> set [''/p/a.qmd'', ''/p/b.qmd''] \<subset> set (files_input demo_context)"
    and "incremental (Some [''/p/a.qmd'', ''/p/b.qmd''])"
    by (simp_all add: demo_context_def incremental_def)
  moreover have "fst (renderProject demo_paths demo_collab demo_context demo_options
          (Some [''/p/a.qmd'', ''/p/b.qmd'']) (demo_world demo_fs None)) =
     fst (renderProject demo_paths demo_collab demo_context demo_options
          None (demo_world demo_fs None))"
    by code_simp
  moreover have "last (warnings (snd (renderProject demo_paths demo_collab demo_context demo_options
          (Some [''/p/a.qmd'', ''/p/b.qmd'']) (demo_world demo_fs None)))) =
     ''post-render: incremental''"
    by code_simp
  moreover have "last (warnings (snd (renderProject demo_paths demo_collab demo_context demo_options
          None (demo_world demo_fs None)))) = ''post-render: full''"
    by code_simp
  ultimately show ?thesis by blast
qed

subsection \<open>The resource files of the result\<close>

lemma under_startsWith: "under d x \<Longrightarrow> startsWith x d"
  by (auto simp: under_def startsWith_def prefix_def)

lemma keepResource_supporting:
  "keepResource P pd renderedFile excluded x \<Longrightarrow> rf_supporting renderedFile = Some dirs \<Longrightarrow>
   s \<in> set dirs \<Longrightarrow> \<not> startsWith x (join P pd s)"
  by (auto simp: keepResource_def list_ex_iff split: if_splits)

lemma resourceFilesOf_kept:
  assumes "resourceFilesOf P c pd renderedFile w = (Inr xs, w')"
    and "x \<in> set xs" "rf_supporting renderedFile = Some dirs" "s \<in> set dirs"
  shows "\<not> startsWith x (join P pd s)"
proof -
  from assms(1) have "\<forall>x \<in> set xs. \<exists>excluded. keepResource P pd renderedFile excluded x"
    by (auto simp: resourceFilesOf_def Let_def bindE_Inr returnE_def)
  with assms(2) obtain excluded where "keepResource P pd renderedFile excluded x" by blast
  then show ?thesis using assms(3,4) by (rule keepResource_supporting)
qed

lemma relocateRenderedFile_result:
  assumes "relocateRenderedFile P c outAbs pd renderedFile st w = (Inr st', w')"
  shows "\<exists>r. snd st' = snd st @ [r] \<and> clearOfSupporting P pd r"
proof -
  from assms obtain xs v where
    rs: "resourceFilesOf P c pd renderedFile v = (Inr xs, w')" and
    st': "snd st' = snd st @ [\<lparr>res_input = rf_input renderedFile,
                            res_markdown = rf_markdown renderedFile,
                            res_format = rf_format renderedFile,
                            res_file = rf_file renderedFile,
                            res_supporting = rf_supporting renderedFile,
                            res_resourceFiles = xs\<rparr>]"
    unfolding relocateRenderedFile_def Let_def bindE_Inr
    by (elim exE conjE) (auto simp: returnE_def)
  show ?thesis
    using st' resourceFilesOf_kept[OF rs] by (auto simp: clearOfSupporting_def)
qed

lemma foldE_relocate_results:
  assumes "foldE (relocateRenderedFile P c outAbs pd) rfs st w = (Inr st', w')"
    and "\<forall>r \<in> set (snd st). clearOfSupporting P pd r"
  shows "\<forall>r \<in> set (snd st'). clearOfSupporting P pd r"
  using assms
proof (induction rfs arbitrary: st w)
  case Nil
  then show ?case by (simp add: returnE_def)
next
  case (Cons rf rfs)
  from Cons.prems(1) obtain st1 w1 where
    one: "relocateRenderedFile P c outAbs pd rf st w = (Inr st1, w1)" and
    rest: "foldE (relocateRenderedFile P c outAbs pd) rfs st1 w1 = (Inr st', w')"
    by (auto simp: bindE_Inr)
  from relocateRenderedFile_result[OF one] Cons.prems(2)
  have "\<forall>r \<in> set (snd st1). clearOfSupporting P pd r" by auto
  with rest show ?case by (rule Cons.IH)
qed

lemma relocateOutputs_results:
  assumes "relocateOutputs P c pt context l inc outAbs fileResults w = (Inr results', w')"
  shows "\<exists>results. results' =
           map (withoutOutputs (map (\<lambda>r. join P (projDir l) (res_file r)) results)) results \<and>
         (\<forall>r \<in> set results. clearOfSupporting P (projDir l) r)"
proof -
  from assms obtain st w1 where
    loop: "foldE (relocateRenderedFile P c outAbs (projDir l)) (fr_files fileResults) (False, []) w
             = (Inr st, w1)" and
    res: "results' = map (withoutOutputs (map (\<lambda>r. join P (projDir l) (res_file r)) (snd st)))
             (snd st)"
    by (auto simp: relocateOutputs_def Let_def bindE_Inr returnE_def split: prod.splits)
  from foldE_relocate_results[OF loop] res show ?thesis by auto
qed


lemma tryFinally_eq:
  "tryFinally m cleanup w = (r, w') \<longleftrightarrow> (\<exists>w1. m w = (r, w1) \<and> w' = cleanup w1)"
  by (auto simp: tryFinally_def split: prod.splits)

lemma render_results:
  assumes "renderProject_render P c pt context files l w = (Inr res, w')"
  shows "baseDir res = projDir l \<and>
         ((\<exists>results. result_files res =
             map (withoutOutputs (map (\<lambda>r. join P (projDir l) (res_file r)) results)) results \<and>
             (\<forall>r \<in> set results. clearOfSupporting P (projDir l) r)) \<or>
          (\<forall>r \<in> set (result_files res). res_resourceFiles r = []))"
proof -
  from assms obtain fileResults w1 results w2 where
    rel: "(case outputDirAbsolute l of
              Some outAbs \<Rightarrow>
                relocateOutputs P c pt context l (incremental files) outAbs fileResults
            | None \<Rightarrow> returnE (map untracked (fr_files fileResults))) w1 = (Inr results, w2)" and
    res: "baseDir res = projDir l" "result_files res = results"
    by (auto simp: renderProject_render_def Let_def bindE_Inr returnE_def)
  show ?thesis
  proof (cases "outputDirAbsolute l")
    case None
    with rel have "results = map untracked (fr_files fileResults)"
      by (simp add: returnE_def)
    then have "\<forall>r \<in> set (result_files res). res_resourceFiles r = []"
      by (auto simp: res untracked_def)
    with res show ?thesis by simp
  next
    case (Some outAbs)
    with rel have "relocateOutputs P c pt context l (incremental files) outAbs fileResults w1 =
        (Inr results, w2)"
      by simp
    from relocateOutputs_results[OF this] res show ?thesis by blast
  qed
qed

text \<open>
  Claim C5. In the result of a \<^verbatim>\<open>renderProject\<close> call that returned, the resource files of
  every file are none of the tracked output files of the render (the project directory
  joined with the \<^verbatim>\<open>file\<close> of a result file), and none of them starts with, and so none
  of them lies under, one of that file's own supporting directories (the project
  directory joined with the supporting directory). Without an output directory the
  resource files of every file are empty.
\<close>

theorem resources_exclude_outputs_and_supporting:
  "renderProject P c context options files w = (Inr res, w') \<longrightarrow>
     (\<forall>r \<in> set (result_files res). \<forall>x \<in> set (res_resourceFiles r).
        x \<notin> set (map (\<lambda>r'. join P (baseDir res) (res_file r')) (result_files res)) \<and>
        (\<forall>dirs. res_supporting r = Some dirs \<longrightarrow>
           (\<forall>s \<in> set dirs. \<not> startsWith x (join P (baseDir res) s) \<and>
                             \<not> under (join P (baseDir res) s) x)))"
proof (intro impI ballI)
  fix r x
  assume run: "renderProject P c context options files w = (Inr res, w')"
    and r: "r \<in> set (result_files res)" and x: "x \<in> set (res_resourceFiles r)"
  from run obtain l w1 w2 where
    "renderProject_render P c (projectType c (configOf context project_type)) context files l w1
       = (Inr res, w2)"
    by (auto simp: renderProject_def Let_def bindE_Inr tryFinally_eq)
  from render_results[OF this]
  have base: "baseDir res = projDir l"
    and shape: "(\<exists>results. result_files res =
             map (withoutOutputs (map (\<lambda>r. join P (projDir l) (res_file r)) results)) results \<and>
             (\<forall>r \<in> set results. clearOfSupporting P (projDir l) r)) \<or>
          (\<forall>r \<in> set (result_files res). res_resourceFiles r = [])"
    by auto
  from shape r x obtain results r0 where
    rs: "result_files res =
           map (withoutOutputs (map (\<lambda>r. join P (projDir l) (res_file r)) results)) results"
    and r0: "r0 \<in> set results" "clearOfSupporting P (projDir l) r0"
      "r = withoutOutputs (map (\<lambda>r. join P (projDir l) (res_file r)) results) r0"
    by auto
  have outs: "map (\<lambda>r'. join P (projDir l) (res_file r')) (result_files res) =
      map (\<lambda>r. join P (projDir l) (res_file r)) results"
    by (simp add: rs withoutOutputs_def comp_def)
  from x r0(3) have x0: "x \<in> set (res_resourceFiles r0)"
    and xo: "x \<notin> set (map (\<lambda>r. join P (projDir l) (res_file r)) results)"
    by (auto simp: withoutOutputs_def)
  have sup: "res_supporting r = res_supporting r0"
    using r0(3) by (simp add: withoutOutputs_def)
  show "x \<notin> set (map (\<lambda>r'. join P (baseDir res) (res_file r')) (result_files res)) \<and>
        (\<forall>dirs. res_supporting r = Some dirs \<longrightarrow>
           (\<forall>s \<in> set dirs. \<not> startsWith x (join P (baseDir res) s) \<and>
                             \<not> under (join P (baseDir res) s) x))"
    using xo x0 r0(2) under_startsWith
    unfolding base outs sup clearOfSupporting_def by blast
qed

text \<open>On the demo project the resource glob of \<^verbatim>\<open>a.html\<close> resolves to the rendered file
  itself, to a figure in its supporting directory and to \<^verbatim>\<open>data.csv\<close>, and the rendered
  file and the figure are listed as resources too: of these only \<^verbatim>\<open>data.csv\<close> is a
  resource file of the result.\<close>

theorem resources_exclude_outputs_and_supporting_witness:
  "fst (renderProject demo_paths demo_collab demo_context demo_options None
          (demo_world demo_fs None)) =
     Inr (projr (fst (renderProject demo_paths demo_collab demo_context demo_options None
          (demo_world demo_fs None)))) \<and>
   map res_file (result_files (projr (fst (renderProject demo_paths demo_collab demo_context
          demo_options None (demo_world demo_fs None))))) = [''a.html''] \<and>
   map res_supporting (result_files (projr (fst (renderProject demo_paths demo_collab
          demo_context demo_options None (demo_world demo_fs None))))) = [Some [''a_files'']] \<and>
   ''/p/a.html'' \<notin> set (concat (map res_resourceFiles (result_files (projr (fst
          (renderProject demo_paths demo_collab demo_context demo_options None
             (demo_world demo_fs None))))))) \<and>
   ''/p/a_files/fig.png'' \<notin> set (concat (map res_resourceFiles (result_files (projr (fst
          (renderProject demo_paths demo_collab demo_context demo_options None
             (demo_world demo_fs None))))))) \<and>
   ''/p/data.csv'' \<in> set (concat (map res_resourceFiles (result_files (projr (fst
          (renderProject demo_paths demo_collab demo_context demo_options None
             (demo_world demo_fs None)))))))"
proof -
  let ?run = "renderProject demo_paths demo_collab demo_context demo_options None
      (demo_world demo_fs None)"
  define res where "res = projr (fst ?run)"
  have "case fst ?run of Inl e \<Rightarrow> False | Inr r \<Rightarrow> True" by code_simp
  then have ok: "fst ?run = Inr res" by (cases "fst ?run") (auto simp: res_def)
  then have run: "?run = (Inr res, snd ?run)" by (simp add: prod_eq_iff)
  have files: "map res_file (result_files res) = [''a.html'']"
    and sup: "map res_supporting (result_files res) = [Some [''a_files'']]"
    and base: "baseDir res = ''/p''"
    and csv: "''/p/data.csv'' \<in> set (concat (map res_resourceFiles (result_files res)))"
    unfolding res_def by code_simp+
  from files sup obtain r where r: "result_files res = [r]" "res_file r = ''a.html''"
    "res_supporting r = Some [''a_files'']"
    by (cases "result_files res") auto
  have outs: "join demo_paths ''/p'' ''a.html'' = ''/p/a.html''"
    and dirs: "join demo_paths ''/p'' ''a_files'' = ''/p/a_files''"
    by (simp_all add: demo_paths_def)
  have fig: "startsWith ''/p/a_files/fig.png'' ''/p/a_files''"
    by (simp add: startsWith_def)
  have "x \<noteq> ''/p/a.html'' \<and> \<not> startsWith x ''/p/a_files''"
    if "x \<in> set (res_resourceFiles r)" for x
    using resources_exclude_outputs_and_supporting
      [of demo_paths demo_collab demo_context demo_options None "demo_world demo_fs None" res
        "snd ?run"]
      run that r base outs dirs
    by auto
  with fig have "''/p/a.html'' \<notin> set (res_resourceFiles r)"
    "''/p/a_files/fig.png'' \<notin> set (res_resourceFiles r)"
    by auto
  with ok files sup csv r(1) show ?thesis
    unfolding res_def by simp
qed

subsection \<open>Missing and existing resource files\<close>

lemma mapE_realPathSync:
  "\<forall>p \<in> set ps. existsSync w p \<Longrightarrow> mapE realPathSync ps w = (Inr ps, w)"
  by (induction ps) (simp_all add: returnE_def bindE_def realPathSync_def)

lemma explicitResourceFiles_existing:
  "explicitResourceFiles P resourceDir renderedFile w =
     (Inr (filter (existsSync w) (map (\<lambda>f. join P resourceDir f) (rf_files renderedFile))), w)"
  unfolding explicitResourceFiles_def by (rule mapE_realPathSync) simp

lemma copyResource_missing:
  assumes "\<not> existsSync w f"
  shows "copyResource P context pd outAbs f w =
     (Inr (), if existsSync w (join P outAbs (relative P pd f)) then w
              else w\<lparr>warnings := warnings w @
                     [''File '' @ [CHR 0x27] @ relative P pd f @ [CHR 0x27] @ '' was not found.'']\<rparr>)"
  using assms by (simp add: copyResource_def Let_def warning_def returnE_def)

lemma copyResource_directory:
  assumes "existsSync w f" "\<not> isFile w f"
  shows "copyResource P context pd outAbs f w = (Inr (), w)"
  using assms by (simp add: copyResource_def Let_def returnE_def)

lemma isFile_exists: "isFile w f \<Longrightarrow> existsSync w f"
  by (auto simp: isFile_def existsSync_def split: option.splits)

lemma copyResource_file:
  assumes "isFile w f"
  shows "copyResource P context pd outAbs f w =
     copyResourceFile P (dir context) f (join P outAbs (relative P pd f)) w"
  using assms isFile_exists[OF assms] by (simp add: copyResource_def Let_def)

lemma copyResourceFile_copies:
  assumes run: "copyResourceFile P rootDir f dest w = (Inr (), v)" and isf: "isFile w f"
  shows "lookup (fs v) dest = lookup (fs w) f \<and> warnings v = warnings w"
proof -
  from run obtain u w1 where
    e: "ensureDirSync (dirname P dest) w = (Inr u, w1)" and
    c: "(case lookup (fs w1) f of
           Some (File s) \<Rightarrow>
             (case lookup (fs w1) dest of
                Some Dir \<Rightarrow> throwE (IsADirectory dest) w1
              | other \<Rightarrow>
                  returnE () (w1\<lparr>fs := (dest, File s) #
                                       filter (\<lambda>(q, n). q \<noteq> dest) (fs w1)\<rparr>))
         | Some Dir \<Rightarrow> throwE (IsADirectory f) w1
         | None \<Rightarrow> throwE (NotFound f) w1) = (Inr (), v)"
    by (auto simp: copyResourceFile_def bindE_Inr)
  from e have w1: "w1 = w\<lparr>fs := mkdirs (fs w) (dirname P dest)\<rparr>"
    by (cases rule: ensureDirSync_cases) auto
  from isf obtain s where s: "lookup (fs w) f = Some (File s)"
    by (auto simp: isFile_def split: option.splits node.splits)
  then have s1: "lookup (fs w1) f = Some (File s)"
    by (simp add: w1 lookup_mkdirs)
  from c s1 have "v = w1\<lparr>fs := (dest, File s) # filter (\<lambda>(q, n). q \<noteq> dest) (fs w1)\<rparr>"
    by (auto simp: returnE_def throwE_def split: option.splits node.splits)
  then show ?thesis using s by (simp add: lookup_def w1)
qed

text \<open>
  Claim C9, as amended. The explicitly listed resource files of a rendered file are
  filtered for existence: \<^verbatim>\<open>explicitResourceFiles\<close> returns those that exist, does not throw
  and leaves the world, the warnings with it, as it was, so a listed file that is not
  on disk is dropped without a warning. The copy loop, whose body is \<^verbatim>\<open>copyResource\<close>,
  does not throw on a path that does not exist: it logs the warning when nothing is at
  the destination either, and does nothing when the destination exists. A path that
  is a directory is skipped. A regular file is handed to \<^verbatim>\<open>copyResourceFile\<close> with the
  destination at the matching relative path of the output directory; when that
  returns, the destination holds what the file holds and no warning was logged (this
  rests on what the specification says of \<^verbatim>\<open>copyResourceFile\<close>).
\<close>

theorem missing_resource_dropped_or_warned:
  "explicitResourceFiles P resourceDir renderedFile w =
     (Inr (filter (existsSync w) (map (\<lambda>f. join P resourceDir f) (rf_files renderedFile))), w) \<and>
   (\<not> existsSync w f \<longrightarrow>
      copyResource P context pd outAbs f w =
        (Inr (), if existsSync w (join P outAbs (relative P pd f)) then w
                 else w\<lparr>warnings := warnings w @
                        [''File '' @ [CHR 0x27] @ relative P pd f @ [CHR 0x27] @
                         '' was not found.'']\<rparr>)) \<and>
   (existsSync w f \<and> \<not> isFile w f \<longrightarrow> copyResource P context pd outAbs f w = (Inr (), w)) \<and>
   (isFile w f \<longrightarrow>
      copyResource P context pd outAbs f w =
        copyResourceFile P (dir context) f (join P outAbs (relative P pd f)) w \<and>
      (\<forall>v. copyResource P context pd outAbs f w = (Inr (), v) \<longrightarrow>
         lookup (fs v) (join P outAbs (relative P pd f)) = lookup (fs w) f \<and>
         warnings v = warnings w))"
proof (intro conjI impI allI)
  show "explicitResourceFiles P resourceDir renderedFile w =
     (Inr (filter (existsSync w) (map (\<lambda>f. join P resourceDir f) (rf_files renderedFile))), w)"
    by (rule explicitResourceFiles_existing)
next
  assume "\<not> existsSync w f"
  then show "copyResource P context pd outAbs f w =
        (Inr (), if existsSync w (join P outAbs (relative P pd f)) then w
                 else w\<lparr>warnings := warnings w @
                        [''File '' @ [CHR 0x27] @ relative P pd f @ [CHR 0x27] @
                         '' was not found.'']\<rparr>)"
    by (rule copyResource_missing)
next
  assume "existsSync w f \<and> \<not> isFile w f"
  then show "copyResource P context pd outAbs f w = (Inr (), w)"
    by (simp add: copyResource_directory)
next
  assume "isFile w f"
  then show "copyResource P context pd outAbs f w =
        copyResourceFile P (dir context) f (join P outAbs (relative P pd f)) w"
    by (rule copyResource_file)
next
  fix v
  assume isf: "isFile w f" and "copyResource P context pd outAbs f w = (Inr (), v)"
  then have "copyResourceFile P (dir context) f (join P outAbs (relative P pd f)) w = (Inr (), v)"
    by (simp add: copyResource_file)
  then show "lookup (fs v) (join P outAbs (relative P pd f)) = lookup (fs w) f"
    and "warnings v = warnings w"
    using isf copyResourceFile_copies by blast+
qed

text \<open>On the demo project: of the four listed resource files of \<^verbatim>\<open>a.html\<close>, the three
  that exist are returned; the project resource \<^verbatim>\<open>gone.txt\<close>, which is neither in the
  project nor in the output directory, is warned about; \<^verbatim>\<open>data.csv\<close> is copied to
  \<^verbatim>\<open>/p/o/data.csv\<close>.\<close>

theorem missing_resource_dropped_or_warned_witness:
  "explicitResourceFiles demo_paths ''/p'' demo_rendered (demo_world demo_fs None) =
     (Inr [''/p/data.csv'', ''/p/a_files/fig.png'', ''/p/a.html''], demo_world demo_fs None) \<and>
   copyResource demo_paths demo_context ''/p'' ''/p/o'' ''/p/gone.txt'' (demo_world demo_fs None) =
     (Inr (), (demo_world demo_fs None)\<lparr>warnings :=
        [''File '' @ [CHR 0x27] @ ''gone.txt'' @ [CHR 0x27] @ '' was not found.'']\<rparr>) \<and>
   copyResource demo_paths demo_context ''/p'' ''/p/o'' ''/p/a_files'' (demo_world demo_fs None) =
     (Inr (), demo_world demo_fs None) \<and>
   fst (copyResource demo_paths demo_context ''/p'' ''/p/o'' ''/p/data.csv''
          (demo_world demo_fs None)) = Inr () \<and>
   lookup (fs (snd (copyResource demo_paths demo_context ''/p'' ''/p/o'' ''/p/data.csv''
          (demo_world demo_fs None)))) ''/p/o/data.csv'' = Some (File ''1,2'')"
proof -
  let ?w = "demo_world demo_fs None"
  note t = missing_resource_dropped_or_warned
  have ex: "filter (existsSync ?w) (map (\<lambda>f. join demo_paths ''/p'' f) (rf_files demo_rendered)) =
      [''/p/data.csv'', ''/p/a_files/fig.png'', ''/p/a.html'']"
    by code_simp
  have a: "explicitResourceFiles demo_paths ''/p'' demo_rendered ?w =
      (Inr [''/p/data.csv'', ''/p/a_files/fig.png'', ''/p/a.html''], ?w)"
    using t[of demo_paths "''/p''" demo_rendered ?w] ex by simp
  have gone: "\<not> existsSync ?w ''/p/gone.txt''"
    "\<not> existsSync ?w (join demo_paths ''/p/o'' (relative demo_paths ''/p'' ''/p/gone.txt''))"
    "relative demo_paths ''/p'' ''/p/gone.txt'' = ''gone.txt''"
    "warnings ?w = []"
    by code_simp+
  have b: "copyResource demo_paths demo_context ''/p'' ''/p/o'' ''/p/gone.txt'' ?w =
     (Inr (), ?w\<lparr>warnings :=
        [''File '' @ [CHR 0x27] @ ''gone.txt'' @ [CHR 0x27] @ '' was not found.'']\<rparr>)"
    using t[of demo_paths "''/p''" demo_rendered ?w "''/p/gone.txt''" demo_context "''/p''" "''/p/o''"]
      gone
    by simp
  have d: "existsSync ?w ''/p/a_files''" "\<not> isFile ?w ''/p/a_files''"
    by code_simp+
  have c: "copyResource demo_paths demo_context ''/p'' ''/p/o'' ''/p/a_files'' ?w = (Inr (), ?w)"
    using t[of demo_paths "''/p''" demo_rendered ?w "''/p/a_files''" demo_context "''/p''" "''/p/o''"]
      d
    by simp
  have csv: "isFile ?w ''/p/data.csv''"
    "join demo_paths ''/p/o'' (relative demo_paths ''/p'' ''/p/data.csv'') = ''/p/o/data.csv''"
    "lookup (fs ?w) ''/p/data.csv'' = Some (File ''1,2'')"
    by code_simp+
  have ok: "fst (copyResource demo_paths demo_context ''/p'' ''/p/o'' ''/p/data.csv'' ?w) = Inr ()"
    by code_simp
  then have run: "copyResource demo_paths demo_context ''/p'' ''/p/o'' ''/p/data.csv'' ?w =
      (Inr (), snd (copyResource demo_paths demo_context ''/p'' ''/p/o'' ''/p/data.csv'' ?w))"
    by (simp add: prod_eq_iff)
  have e: "lookup (fs (snd (copyResource demo_paths demo_context ''/p'' ''/p/o'' ''/p/data.csv''
      ?w))) ''/p/o/data.csv'' = Some (File ''1,2'')"
    using t[of demo_paths "''/p''" demo_rendered ?w "''/p/data.csv''" demo_context "''/p''" "''/p/o''"]
      csv run
    by metis
  from a b c ok e show ?thesis by simp
qed

text \<open>
  Claim C9 as stated fails. The rendered file \<^verbatim>\<open>a.html\<close> lists the resource file
  \<^verbatim>\<open>missing.png\<close>, which is not on disk: the render returns and no warning names it (the
  one warning of the relocation is for the project resource \<^verbatim>\<open>gone.txt\<close>). And with a
  file left at \<^verbatim>\<open>/p/o/gone.txt\<close> by an earlier run, the project resource \<^verbatim>\<open>gone.txt\<close>, still
  not on disk in the project, is not warned about either.
\<close>

theorem missing_listed_resource_counterexample:
  "''missing.png'' \<in> set (rf_files demo_rendered) \<and>
   lookup demo_fs ''/p/missing.png'' = None \<and>
   lookup demo_fs ''/p/o/missing.png'' = None \<and>
   files_resources demo_context = Some [''/p/gone.txt''] \<and>
   lookup demo_fs ''/p/gone.txt'' = None \<and>
   \<not> isl (fst (renderProject demo_paths demo_collab demo_context demo_options None
      (demo_world demo_fs None))) \<and>
   warnings (snd (renderProject demo_paths demo_collab demo_context demo_options None
      (demo_world demo_fs None))) =
     [''QUARTO_PROJECT_DIR=/p'', ''always-execute:'',
      ''File '' @ [CHR 0x27] @ ''gone.txt'' @ [CHR 0x27] @ '' was not found.'',
      ''post-render: full''] \<and>
   warnings (snd (renderProject demo_paths demo_collab demo_context demo_options None
      (demo_world ((''/p/o/gone.txt'', File ''old'') # demo_fs) None))) =
     [''QUARTO_PROJECT_DIR=/p'', ''always-execute:'', ''post-render: full'']"
  by code_simp

end
